theory Spec2Isabelle
  imports Main
begin

section \<open>Data model of the summarizer\<close>

text \<open>
  Sequence numbers, counts and millisecond clock readings are TypeScript numbers that only
  ever hold integers; they are modelled as \<open>int\<close>. Every function that reads
  \<^verbatim>\<open>Date.now()\<close> takes the reading as its parameter \<open>now\<close>.
\<close>

datatype summarize_reason =
    Idle
  | MaxTime
  | MaxOps
  | Save string string
  | LastSummary
  | Retry1
  | Retry2


datatype summarizer_stop_reason =
    FailToSummarize
  | ParentNoLongerSummarizer
  | ParentNotConnected
  | ParentShouldNotSummarize
  | Disposed

datatype summarize_error =
    GenerateSummaryFailure
  | SummaryOpWaitTimeout
  | SummaryAckWaitTimeout
  | SummaryNack

fun summarizeErrors :: "summarize_error \<Rightarrow> string" where
  "summarizeErrors GenerateSummaryFailure = ''Error while generating or submitting summary''"
| "summarizeErrors SummaryOpWaitTimeout = ''Timeout while waiting for summarize op broadcast''"
| "summarizeErrors SummaryAckWaitTimeout = ''Timeout while waiting for summaryAck/summaryNack op''"
| "summarizeErrors SummaryNack = ''Server rejected summary via summaryNack op''"

definition minOpsForLastSummary :: int where
  "minOpsForLastSummary = 50"

definition maxSummarizeAckWaitTime :: int where
  "maxSummarizeAckWaitTime = 120000"

record generate_options =
  refreshLatestAck :: bool
  fullTree :: bool

record summary_attempt =
  refSequenceNumber :: int
  summaryTime :: int
  summarySequenceNumber :: "int option"

record summary_configuration =
  idleTime :: int
  maxTime :: int
  maxOps :: int
  maxAckWaitTime :: int

text \<open>
  Modelled from the spec: the message types of the ordering stream
  (\<^verbatim>\<open>MessageType\<close> of the protocol definitions, which this repository imports).
  \<open>Operation\<close> stands for every type the summarizer does not look at.
\<close>

datatype message_type =
    MessageType_Save
  | MessageType_ClientJoin
  | MessageType_ClientLeave
  | MessageType_Propose
  | MessageType_Reject
  | MessageType_Summarize
  | MessageType_SummaryAck
  | MessageType_SummaryNack
  | MessageType_Operation

text \<open>
  Modelled from the spec: a sequenced message of the stream, with the fields the summarizer
  reads. \<open>msg_data\<close> is the parsed payload of a system message (the leaving client's id).
\<close>

record sequenced_message =
  sequenceNumber :: int
  msg_referenceSequenceNumber :: int
  msg_type :: message_type
  msg_clientId :: string
  msg_contents :: string
  msg_timestamp :: int
  msg_data :: string

text \<open>
  Modelled from the spec: the value \<^verbatim>\<open>generateSummary\<close> resolves with
  (\<^verbatim>\<open>GenerateSummaryData\<close>).
\<close>

record generate_summary_data =
  referenceSequenceNumber :: int
  submitted :: bool
  clientSequenceNumber :: int

text \<open>
  What a \<^verbatim>\<open>Promise.race\<close> against the pending-ack timer resolves with: the value of
  the other promise, the timer's marker object (any object whose \<^verbatim>\<open>timerResult\<close> is
  defined), or \<^verbatim>\<open>undefined\<close>.
\<close>

datatype 'a raced =
    Value 'a
  | PromiseTimerResult
  | Undefined

text \<open>
  \<^verbatim>\<open>checkNotTimeout\<close> is a type guard; the model returns the narrowed value where the
  guard says true.
\<close>

fun checkNotTimeout :: "'a raced \<Rightarrow> 'a option" where
  "checkNotTimeout Undefined = None"
| "checkNotTimeout PromiseTimerResult = None"
| "checkNotTimeout (Value v) = Some v"

text \<open>
  Everything the running summarizer does to its collaborators, in order: calls of its own
  trigger function, the events of the \<^verbatim>\<open>Summarize\<close> performance event
  (start, cancel, end), calls of \<^verbatim>\<open>generateSummary\<close>, of the raise-warning callback and
  of \<^verbatim>\<open>stop\<close>, other telemetry, operations of the idle timer and the resolution of the
  \<^verbatim>\<open>summarizing\<close> signal.
\<close>

datatype effect =
    TrySummarize summarize_reason
  | Summarize_start summarize_reason generate_options
  | Summarize_cancel summarize_error
  | Summarize_end
  | GenerateSummary generate_options
  | RaiseSummarizingError string
  | SendTelemetryEvent string
  | SendErrorEvent string
  | Stop summarizer_stop_reason
  | IdleTimer_clear
  | IdleTimer_restart int
  | Summarizing_resolve

text \<open>
  The asynchronous functions are modelled as resumable computations. \<open>await_point\<close> names the
  \<^verbatim>\<open>await\<close> at which \<^verbatim>\<open>summarize\<close> is suspended (with the client sequence number
  it watches), \<open>stage\<close> the call of \<^verbatim>\<open>summarize\<close> inside the retry escalation of
  \<^verbatim>\<open>trySummarize\<close> that is running, and \<open>started\<close> the clock reading when that call
  began.
\<close>

datatype await_point =
    AwaitGenerateSummary
  | AwaitBroadcast int
  | AwaitAckNack int

datatype stage = FirstAttempt | SecondAttempt | ThirdAttempt

record frame =
  frame_stage :: stage
  frame_point :: await_point
  started :: int

datatype deferred = Deferred

text \<open>
  Modelled from the spec: the timers (\<^verbatim>\<open>Timer\<close> and \<^verbatim>\<open>PromiseTimer\<close> of the
  common utilities). A timer is armed or not: \<^verbatim>\<open>start\<close> and \<^verbatim>\<open>restart\<close> cancel any
  pending firing and arm it, \<^verbatim>\<open>clear\<close> cancels, and only an armed timer fires.
\<close>

type_synonym timer = bool

text \<open>
  The state of a \<^verbatim>\<open>RunningSummarizer\<close> together with the
  \<^verbatim>\<open>SummarizerHeuristics\<close> object it exclusively owns (fields \<open>configuration\<close> to
  \<open>idleTimer\<close>). \<open>task\<close> is the suspended asynchronous body of
  \<^verbatim>\<open>trySummarize\<close>, \<open>trace\<close> the effects so far. Objects are values here: the one
  assignment through a reference, to \<^verbatim>\<open>lastAttempted.summarySequenceNumber\<close>, happens
  when \<^verbatim>\<open>lastAttempted\<close> is the fresh object of the attempt's own
  \<^verbatim>\<open>recordAttempt\<close>, which nothing else refers to.
\<close>

record running_summarizer =
  configuration :: summary_configuration
  lastOpSeqNumber :: int
  lastAttempted :: summary_attempt
  lastAcked :: summary_attempt
  idleTimer :: timer
  rs_clientId :: string
  rs_onBehalfOfClientId :: string
  stopping :: bool
  disposed :: bool
  summarizing :: "deferred option"
  summarizeCount :: int
  tryWhileSummarizing :: bool
  summarizeTimer :: timer
  pendingAckTimer :: timer
  task :: "frame option"
  trace :: "effect list"

definition emit :: "effect \<Rightarrow> running_summarizer \<Rightarrow> running_summarizer" where
  "emit e s = s\<lparr>trace := trace s @ [e]\<rparr>"

section \<open>SummarizerHeuristics\<close>

definition initialize :: "summary_attempt \<Rightarrow> running_summarizer \<Rightarrow> running_summarizer" where
  "initialize lastSummary s = s\<lparr>lastAttempted := lastSummary, lastAcked := lastSummary\<rparr>"

definition recordAttempt :: "int option \<Rightarrow> int \<Rightarrow> running_summarizer \<Rightarrow> running_summarizer" where
  "recordAttempt refSeq now s =
     s\<lparr>lastAttempted :=
         \<lparr>refSequenceNumber = (case refSeq of Some r \<Rightarrow> r | None \<Rightarrow> lastOpSeqNumber s),
          summaryTime = now,
          summarySequenceNumber = None\<rparr>\<rparr>"

definition ackLastSent :: "running_summarizer \<Rightarrow> running_summarizer" where
  "ackLastSent s = s\<lparr>lastAcked := lastAttempted s\<rparr>"

section \<open>RunningSummarizer: one attempt\<close>

definition fail :: "summarize_error \<Rightarrow> running_summarizer \<Rightarrow> running_summarizer" where
  "fail message s =
     emit (Summarize_cancel message) (emit (RaiseSummarizingError (summarizeErrors message)) s)"

text \<open>
  \<^verbatim>\<open>summarize\<close> up to its first \<^verbatim>\<open>await\<close>: the counter, the start of the performance
  event, the long-summarize timer and the call of \<^verbatim>\<open>generateSummary\<close>.
\<close>

definition summarize_begin ::
  "summarize_reason \<Rightarrow> generate_options \<Rightarrow> running_summarizer \<Rightarrow> running_summarizer" where
  "summarize_begin reason options s =
     (let s1 = s\<lparr>summarizeCount := summarizeCount s + 1\<rparr>;
          s2 = emit (Summarize_start reason options) s1;
          s3 = s2\<lparr>summarizeTimer := True\<rparr>
      in emit (GenerateSummary options) s3)"

text \<open>What resolves an \<^verbatim>\<open>await\<close> of \<^verbatim>\<open>summarize\<close>.\<close>

datatype settled =
    GenerateSummaryRejected
  | GenerateSummaryResolved generate_summary_data
  | BroadcastRace "sequenced_message raced"
  | AckNackRace "sequenced_message raced"

datatype summarize_status = Suspended await_point | Returned bool

text \<open>
  \<^verbatim>\<open>summarize\<close> from the \<^verbatim>\<open>await\<close> it is suspended at to the next one or to its
  return. In the first two equations the \<^verbatim>\<open>catch\<close> block runs before the
  \<^verbatim>\<open>finally\<close> block. A settlement that does not belong to the current
  \<^verbatim>\<open>await\<close> leaves everything as it is.
\<close>

fun summarize_resume ::
  "int \<Rightarrow> settled \<Rightarrow> await_point \<Rightarrow> running_summarizer \<Rightarrow> running_summarizer \<times> summarize_status" where
  "summarize_resume now GenerateSummaryRejected AwaitGenerateSummary s =
     (let s1 = fail GenerateSummaryFailure s;
          s2 = (recordAttempt None now s1)\<lparr>summarizeTimer := False\<rparr>
      in (s2, Returned False))"
| "summarize_resume now (GenerateSummaryResolved summaryData) AwaitGenerateSummary s =
     (let s1 = emit (SendTelemetryEvent ''GenerateSummary'') s;
          s2 = (recordAttempt (Some (referenceSequenceNumber summaryData)) now s1)
                 \<lparr>summarizeTimer := False\<rparr>
      in if \<not> submitted summaryData then (fail GenerateSummaryFailure s2, Returned False)
         else (s2\<lparr>pendingAckTimer := True\<rparr>,
               Suspended (AwaitBroadcast (clientSequenceNumber summaryData))))"
| "summarize_resume now (BroadcastRace r) (AwaitBroadcast csn) s =
     (case checkNotTimeout r of
        None \<Rightarrow> ((fail SummaryOpWaitTimeout s)\<lparr>pendingAckTimer := False\<rparr>, Returned False)
      | Some summaryOp \<Rightarrow>
          (let s1 = s\<lparr>lastAttempted :=
                        (lastAttempted s)\<lparr>summarySequenceNumber := Some (sequenceNumber summaryOp)\<rparr>\<rparr>
           in (emit (SendTelemetryEvent ''SummaryOp'') s1, Suspended (AwaitAckNack csn))))"
| "summarize_resume now (AckNackRace r) (AwaitAckNack csn) s =
     (case checkNotTimeout r of
        None \<Rightarrow> ((fail SummaryAckWaitTimeout s)\<lparr>pendingAckTimer := False\<rparr>, Returned False)
      | Some ackNack \<Rightarrow>
          (let s1 = s\<lparr>pendingAckTimer := False\<rparr>
           in if msg_type ackNack = MessageType_SummaryAck
              then (emit Summarize_end (ackLastSent s1), Returned True)
              else (fail SummaryNack s1, Returned False)))"
| "summarize_resume now e p s = (s, Suspended p)"

section \<open>RunningSummarizer: triggering, heuristics, retry escalation\<close>

text \<open>
  \<^verbatim>\<open>trySummarize\<close> up to the first \<^verbatim>\<open>await\<close> of its asynchronous body, which is
  the one inside the first call of \<^verbatim>\<open>summarize\<close>.
\<close>

definition trySummarize ::
  "summarize_reason \<Rightarrow> int \<Rightarrow> running_summarizer \<Rightarrow> running_summarizer" where
  "trySummarize reason now s0 =
     (let s = emit (TrySummarize reason) s0
      in if summarizing s \<noteq> None then s\<lparr>tryWhileSummarizing := True\<rparr>
         else
           (let s1 = s\<lparr>summarizing := Some Deferred\<rparr>;
                s2 = summarize_begin reason \<lparr>refreshLatestAck = False, fullTree = False\<rparr> s1
            in s2\<lparr>task := Some \<lparr>frame_stage = FirstAttempt,
                                  frame_point = AwaitGenerateSummary, started = now\<rparr>\<rparr>))"

definition run :: "int \<Rightarrow> running_summarizer \<Rightarrow> running_summarizer" where
  "run now s0 =
     (let s = (emit IdleTimer_clear s0)\<lparr>idleTimer := False\<rparr>;
          timeSinceLastSummary = now - summaryTime (lastAcked s);
          opCountSinceLastSummary = lastOpSeqNumber s - refSequenceNumber (lastAcked s)
      in if timeSinceLastSummary > maxTime (configuration s) then trySummarize MaxTime now s
         else if opCountSinceLastSummary > maxOps (configuration s) then trySummarize MaxOps now s
         else (emit (IdleTimer_restart (idleTime (configuration s))) s)\<lparr>idleTimer := True\<rparr>)"

text \<open>The callback of the idle timer; a timer that is not armed does not fire.\<close>

definition idleTimer_fired :: "int \<Rightarrow> running_summarizer \<Rightarrow> running_summarizer" where
  "idleTimer_fired now s =
     (if idleTimer s then trySummarize Idle now (s\<lparr>idleTimer := False\<rparr>) else s)"

text \<open>The handler of the pending-ack timer.\<close>

definition pendingAckTimer_fired :: "running_summarizer \<Rightarrow> running_summarizer" where
  "pendingAckTimer_fired s =
     (if pendingAckTimer s
      then emit (SendErrorEvent ''SummaryAckWaitTimeout'')
             (emit (RaiseSummarizingError ''SummaryAckWaitTimeout'') (s\<lparr>pendingAckTimer := False\<rparr>))
      else s)"

definition handleOp ::
  "int \<Rightarrow> string option \<Rightarrow> sequenced_message \<Rightarrow> running_summarizer \<Rightarrow> running_summarizer" where
  "handleOp now error op s =
     (if error \<noteq> None then s
      else
        (let s1 = s\<lparr>lastOpSeqNumber := sequenceNumber op\<rparr>
         in if msg_type op = MessageType_Save
            then trySummarize (Save (msg_clientId op) (msg_contents op)) now s1
            else run now s1))"

definition handleSystemOp ::
  "int \<Rightarrow> sequenced_message \<Rightarrow> running_summarizer \<Rightarrow> running_summarizer" where
  "handleSystemOp now op s =
     (if msg_type op = MessageType_ClientLeave
      then (if msg_data op = rs_clientId s \<or> msg_data op = rs_onBehalfOfClientId s then s
            else handleOp now None op s)
      else if msg_type op = MessageType_ClientJoin \<or> msg_type op = MessageType_Propose
              \<or> msg_type op = MessageType_Reject
      then handleOp now None op s
      else s)"

text \<open>The \<^verbatim>\<open>finally\<close> callback of \<^verbatim>\<open>trySummarize\<close>.\<close>

definition trySummarize_finally :: "int \<Rightarrow> running_summarizer \<Rightarrow> running_summarizer" where
  "trySummarize_finally now s0 =
     (let s = (case summarizing s0 of None \<Rightarrow> s0 | Some d \<Rightarrow> emit Summarizing_resolve s0);
          s1 = s\<lparr>summarizing := None, task := None\<rparr>
      in if tryWhileSummarizing s1 \<and> \<not> stopping s1 \<and> \<not> disposed s1
         then run now (s1\<lparr>tryWhileSummarizing := False\<rparr>)
         else s1)"

text \<open>
  The asynchronous body of \<^verbatim>\<open>trySummarize\<close> resumed by a settlement: the running
  \<^verbatim>\<open>summarize\<close> goes on; when it returns, the body goes on in the same turn, to the next
  call of \<^verbatim>\<open>summarize\<close> or to its end.
\<close>

definition trySummarize_resume :: "int \<Rightarrow> settled \<Rightarrow> running_summarizer \<Rightarrow> running_summarizer" where
  "trySummarize_resume now e s =
     (case task s of
        None \<Rightarrow> s
      | Some fr \<Rightarrow>
          (case summarize_resume now e (frame_point fr) s of
             (s1, Suspended p) \<Rightarrow> s1\<lparr>task := Some (fr\<lparr>frame_point := p\<rparr>)\<rparr>
           | (s1, Returned True) \<Rightarrow> trySummarize_finally now s1
           | (s1, Returned False) \<Rightarrow>
               (case frame_stage fr of
                  FirstAttempt \<Rightarrow>
                    (summarize_begin Retry1 \<lparr>refreshLatestAck = True, fullTree = False\<rparr> s1)
                      \<lparr>task := Some \<lparr>frame_stage = SecondAttempt,
                                     frame_point = AwaitGenerateSummary, started = now\<rparr>\<rparr>
                | SecondAttempt \<Rightarrow>
                    (summarize_begin Retry2 \<lparr>refreshLatestAck = True, fullTree = True\<rparr> s1)
                      \<lparr>task := Some \<lparr>frame_stage = ThirdAttempt,
                                     frame_point = AwaitGenerateSummary, started = now\<rparr>\<rparr>
                | ThirdAttempt \<Rightarrow>
                    trySummarize_finally now
                      (emit (Stop FailToSummarize) (emit (SendErrorEvent ''FailToSummarize'') s1)))))"

section \<open>RunningSummarizer: lifecycle\<close>

text \<open>
  What the promise returned by \<^verbatim>\<open>waitStop\<close> waits for: the promise of the
  \<^verbatim>\<open>summarizing\<close> signal, or nothing.
\<close>

datatype waits = AwaitsSummarizing | ReturnsAtOnce

definition await_summarizing :: "running_summarizer \<Rightarrow> waits" where
  "await_summarizing s = (case summarizing s of None \<Rightarrow> ReturnsAtOnce | Some d \<Rightarrow> AwaitsSummarizing)"

definition waitStop :: "int \<Rightarrow> running_summarizer \<Rightarrow> running_summarizer \<times> waits" where
  "waitStop now s =
     (if disposed s then (s, ReturnsAtOnce)
      else if stopping s then (s, await_summarizing s)
      else
        (let s1 = s\<lparr>stopping := True\<rparr>;
             outstandingOps = lastOpSeqNumber s1 - refSequenceNumber (lastAcked s1)
         in if outstandingOps > minOpsForLastSummary
            then (let s2 = trySummarize LastSummary now s1 in (s2, await_summarizing s2))
            else (s1, ReturnsAtOnce)))"

definition dispose :: "running_summarizer \<Rightarrow> running_summarizer" where
  "dispose s =
     (emit IdleTimer_clear s)
       \<lparr>idleTimer := False, summarizeTimer := False, pendingAckTimer := False, disposed := True\<rparr>"

text \<open>The constructor.\<close>

definition RunningSummarizer ::
  "string \<Rightarrow> string \<Rightarrow> summary_configuration \<Rightarrow> int \<Rightarrow> summary_attempt \<Rightarrow> running_summarizer" where
  "RunningSummarizer cid onBehalfOf config lastOp firstAck =
     \<lparr>configuration = config, lastOpSeqNumber = lastOp, lastAttempted = firstAck,
      lastAcked = firstAck, idleTimer = False, rs_clientId = cid,
      rs_onBehalfOfClientId = onBehalfOf, stopping = False, disposed = False,
      summarizing = None, summarizeCount = 0, tryWhileSummarizing = False,
      summarizeTimer = False, pendingAckTimer = False, task = None, trace = []\<rparr>"

text \<open>
  \<^verbatim>\<open>waitStart\<close>: the pending-ack timer is started and raced against the watcher's
  flush. The race resolves with the timer's marker only when the timer has fired, and a
  timer that fires runs its handler first (the warning and the error event of
  \<open>pendingAckTimer_fired\<close>). Then the timer is cleared and, when the flush won, the
  heuristics are initialized from the last ack.
\<close>

definition waitStart :: "sequenced_message raced \<Rightarrow> running_summarizer \<Rightarrow> running_summarizer" where
  "waitStart maybeLastAck s =
     (let s0 = s\<lparr>pendingAckTimer := True\<rparr>;
          s1 = (case maybeLastAck of PromiseTimerResult \<Rightarrow> pendingAckTimer_fired s0 | _ \<Rightarrow> s0);
          s2 = s1\<lparr>pendingAckTimer := False\<rparr>
      in case checkNotTimeout maybeLastAck of
           None \<Rightarrow> s2
         | Some summaryOp \<Rightarrow>
             initialize \<lparr>refSequenceNumber = msg_referenceSequenceNumber summaryOp,
                         summaryTime = msg_timestamp summaryOp,
                         summarySequenceNumber = Some (sequenceNumber summaryOp)\<rparr> s2)"

text \<open>\<^verbatim>\<open>start\<close>: the constructor, \<^verbatim>\<open>waitStart\<close> and the first run of the heuristics.\<close>

definition start ::
  "string \<Rightarrow> string \<Rightarrow> summary_configuration \<Rightarrow> int \<Rightarrow> summary_attempt \<Rightarrow>
   sequenced_message raced \<Rightarrow> int \<Rightarrow> running_summarizer" where
  "start cid onBehalfOf config lastOp firstAck maybeLastAck now =
     run now (waitStart maybeLastAck (RunningSummarizer cid onBehalfOf config lastOp firstAck))"

text \<open>
  One turn of the event loop: something arrives from outside (an op, a timer, a settled
  promise, a call by the owner) and the summarizer runs until it suspends again.
\<close>

datatype event =
    Op "string option" sequenced_message
  | SystemOp sequenced_message
  | IdleTimerFired
  | PendingAckTimerFired
  | Settled settled
  | WaitStop
  | Dispose

fun step :: "running_summarizer \<Rightarrow> int \<times> event \<Rightarrow> running_summarizer" where
  "step s (now, Op error op) = handleOp now error op s"
| "step s (now, SystemOp op) = handleSystemOp now op s"
| "step s (now, IdleTimerFired) = idleTimer_fired now s"
| "step s (now, PendingAckTimerFired) = pendingAckTimer_fired s"
| "step s (now, Settled e) = trySummarize_resume now e s"
| "step s (now, WaitStop) = fst (waitStop now s)"
| "step s (now, Dispose) = dispose s"

definition exec :: "(int \<times> event) list \<Rightarrow> running_summarizer \<Rightarrow> running_summarizer" where
  "exec evs s = foldl step s evs"

section \<open>The Summarizer facade\<close>

text \<open>
  The fields of \<^verbatim>\<open>Summarizer\<close> that \<^verbatim>\<open>stop\<close> and \<^verbatim>\<open>generateSummary\<close> touch,
  and the two client ids they read from the runtime. An id is a string or
  \<^verbatim>\<open>undefined\<close>.
\<close>

datatype summarizer_effect =
    Internals_generateSummary generate_options
  | Telemetry_StoppingSummarizer "string option" "summarizer_stop_reason option"
  | StopDeferred_resolve

record summarizer =
  onBehalfOfClientId :: "string option"
  stopped :: bool
  summarizer_trace :: "summarizer_effect list"

record summarizer_runtime =
  clientId :: "string option"
  summarizerClientId :: "string option"

definition Summarizer_stop :: "summarizer_stop_reason option \<Rightarrow> summarizer \<Rightarrow> summarizer" where
  "Summarizer_stop reason s =
     (if stopped s then s
      else s\<lparr>stopped := True,
             summarizer_trace := summarizer_trace s @
               [Telemetry_StoppingSummarizer (onBehalfOfClientId s) reason, StopDeferred_resolve]\<rparr>)"

text \<open>
  \<^verbatim>\<open>Summarizer.generateSummary\<close>. The internals provider is outside the summarizer: its
  \<^verbatim>\<open>generateSummary\<close> is the parameter \<open>internals\<close>, and what it returns (a promise) is
  handed on as it is.
\<close>

definition Summarizer_generateSummary ::
  "(generate_options \<Rightarrow> 'r) \<Rightarrow> summarizer_runtime \<Rightarrow> generate_options \<Rightarrow> summarizer
   \<Rightarrow> 'r \<times> summarizer" where
  "Summarizer_generateSummary internals runtime options s0 =
     (let result = internals options;
          s = s0\<lparr>summarizer_trace := summarizer_trace s0 @ [Internals_generateSummary options]\<rparr>
      in if onBehalfOfClientId s \<noteq> summarizerClientId runtime
            \<and> clientId runtime \<noteq> summarizerClientId runtime
         then (result, Summarizer_stop (Some ParentNoLongerSummarizer) s)
         else (result, s))"

section \<open>The worker service\<close>

text \<open>
  A work item is the object a \<^verbatim>\<open>case\<close> of \<^verbatim>\<open>processDocumentWork\<close> constructs: its
  class, the document id and the services it is given (the ping work is given the server
  url). \<open>documentMap\<close> is the object of objects of the source, as a map of maps.
\<close>

datatype 'svc work =
    SnapshotWork string 'svc
  | IntelWork string 'svc
  | SpellcheckerWork string 'svc
  | TranslationWork string 'svc
  | PingWork string

datatype 'svc work_effect =
    New "'svc work"
  | StartTask string string "'svc work"
  | Start "'svc work"
  | ConsoleLog string

record 'svc worker_service =
  serverUrl :: string
  documentMap :: "string \<rightharpoonup> (string \<rightharpoonup> 'svc work)"
  work_trace :: "'svc work_effect list"

definition work_emit :: "'svc work_effect \<Rightarrow> 'svc worker_service \<Rightarrow> 'svc worker_service" where
  "work_emit e s = s\<lparr>work_trace := work_trace s @ [e]\<rparr>"

text \<open>
  \<^verbatim>\<open>startTask\<close>; the worker it is called with is never \<^verbatim>\<open>undefined\<close>. Both branches
  on the work type call the worker's \<^verbatim>\<open>start\<close>.
\<close>

definition startTask ::
  "string \<Rightarrow> string \<Rightarrow> 'svc work \<Rightarrow> 'svc worker_service \<Rightarrow> 'svc worker_service" where
  "startTask docId workType worker s0 =
     (let s = work_emit (StartTask docId workType worker) s0;
          s1 = (if documentMap s docId = None
                then s\<lparr>documentMap := (documentMap s)(docId \<mapsto> Map.empty)\<rparr> else s)
      in case documentMap s1 docId of
           None \<Rightarrow> s1
         | Some taskMap \<Rightarrow>
             (if taskMap workType = None
              then (let s2 = work_emit (ConsoleLog (''Starting work '' @ workType
                                                    @ '' for document '' @ docId)) s1;
                        s3 = s2\<lparr>documentMap := (documentMap s2)(docId \<mapsto> taskMap(workType \<mapsto> worker))\<rparr>
                    in work_emit (Start worker) s3)
              else s1))"

text \<open>What the promise of \<^verbatim>\<open>getServiceForDoc\<close> settles with; \<open>None\<close> is a falsy value.\<close>

datatype 'svc service_result = Fulfilled "'svc option" | Rejected string

text \<open>
  \<^verbatim>\<open>processDocumentWork\<close> from the settlement of \<^verbatim>\<open>getServiceForDoc\<close>. The
  \<^verbatim>\<open>switch\<close> is written case by case as in the source: the case \<^verbatim>\<open>"translation"\<close> has no
  \<^verbatim>\<open>break\<close> and runs on into the statements of the case \<^verbatim>\<open>"ping"\<close>, with
  \<^verbatim>\<open>workType\<close> unchanged. The \<^verbatim>\<open>throw\<close> of the default case is the result \<open>Inl\<close>.
\<close>

definition ping_case ::
  "string \<Rightarrow> string \<Rightarrow> 'svc worker_service \<Rightarrow> 'svc worker_service" where
  "ping_case docId workType s =
     (let pingWork = PingWork (serverUrl s)
      in startTask docId workType pingWork (work_emit (New pingWork) s))"

definition processDocumentWork ::
  "string \<Rightarrow> string \<Rightarrow> 'svc service_result \<Rightarrow> 'svc worker_service
   \<Rightarrow> string + 'svc worker_service" where
  "processDocumentWork docId workType settled s =
     (case settled of
        Rejected error \<Rightarrow>
          Inr (work_emit (ConsoleLog (''Error getting service for '' @ docId @ '': '' @ error)) s)
      | Fulfilled None \<Rightarrow>
          Inr (work_emit (ConsoleLog (''No services provide to load document '' @ docId
                                      @ '' for work '' @ workType)) s)
      | Fulfilled (Some services) \<Rightarrow>
          (if workType = ''snapshot'' then
             (let snapshotWork = SnapshotWork docId services
              in Inr (startTask docId workType snapshotWork (work_emit (New snapshotWork) s)))
           else if workType = ''intel'' then
             (let intelWork = IntelWork docId services
              in Inr (startTask docId workType intelWork (work_emit (New intelWork) s)))
           else if workType = ''spell'' then
             (let spellcheckWork = SpellcheckerWork docId services
              in Inr (startTask docId workType spellcheckWork (work_emit (New spellcheckWork) s)))
           else if workType = ''translation'' then
             (let translationWork = TranslationWork docId services;
                  s1 = startTask docId workType translationWork (work_emit (New translationWork) s)
              in Inr (ping_case docId workType s1))
           else if workType = ''ping'' then Inr (ping_case docId workType s)
           else Inl ''Unknown work type!''))"

section \<open>Properties in the words of the specification\<close>

text \<open>The invariant the specification states over the heuristics state.\<close>

definition heuristics_invariant :: "running_summarizer \<Rightarrow> bool" where
  "heuristics_invariant s \<longleftrightarrow>
     refSequenceNumber (lastAcked s) \<le> refSequenceNumber (lastAttempted s)
     \<and> refSequenceNumber (lastAttempted s) \<le> lastOpSeqNumber s"

text \<open>
  The retry escalation as the specification describes it, as an automaton that reads the
  trace. A trigger that finds no attempt in flight begins the first attempt, with the
  trigger's reason and the first options; an attempt is the start of the performance event,
  then the call of \<^verbatim>\<open>generateSummary\<close> with the options of its stage, then the end
  (it returned true) or the cancellation (it returned false) of the performance event.
  After a success the signal is resolved. After the first failure only an attempt with
  reason \<^verbatim>\<open>retry1\<close> may begin, after the second only one with reason
  \<^verbatim>\<open>retry2\<close>, after the third only \<^verbatim>\<open>stop("failToSummarize")\<close> may follow, and then
  the signal is resolved. Triggers during an attempt begin nothing. Warnings, other
  telemetry and the idle timer are not its concern. Everything else is a violation.
\<close>

datatype protocol_state =
    P_Idle
  | P_Triggered summarize_reason
  | P_Begun stage
  | P_Attempting stage
  | P_Failed stage
  | P_Succeeded
  | P_Stopped
  | P_Violated

fun stage_options :: "stage \<Rightarrow> generate_options" where
  "stage_options FirstAttempt = \<lparr>refreshLatestAck = False, fullTree = False\<rparr>"
| "stage_options SecondAttempt = \<lparr>refreshLatestAck = True, fullTree = False\<rparr>"
| "stage_options ThirdAttempt = \<lparr>refreshLatestAck = True, fullTree = True\<rparr>"

fun protocol_step :: "protocol_state \<Rightarrow> effect \<Rightarrow> protocol_state" where
  "protocol_step P_Idle (TrySummarize r) = P_Triggered r"
| "protocol_step (P_Attempting st) (TrySummarize r) = P_Attempting st"
| "protocol_step p (TrySummarize r) = P_Violated"
| "protocol_step (P_Triggered r') (Summarize_start r opts) =
     (if r = r' \<and> opts = stage_options FirstAttempt then P_Begun FirstAttempt else P_Violated)"
| "protocol_step (P_Failed FirstAttempt) (Summarize_start r opts) =
     (if r = Retry1 \<and> opts = stage_options SecondAttempt then P_Begun SecondAttempt else P_Violated)"
| "protocol_step (P_Failed SecondAttempt) (Summarize_start r opts) =
     (if r = Retry2 \<and> opts = stage_options ThirdAttempt then P_Begun ThirdAttempt else P_Violated)"
| "protocol_step p (Summarize_start r opts) = P_Violated"
| "protocol_step (P_Begun st) (GenerateSummary opts) =
     (if opts = stage_options st then P_Attempting st else P_Violated)"
| "protocol_step p (GenerateSummary opts) = P_Violated"
| "protocol_step (P_Attempting st) (Summarize_cancel k) = P_Failed st"
| "protocol_step p (Summarize_cancel k) = P_Violated"
| "protocol_step (P_Attempting st) Summarize_end = P_Succeeded"
| "protocol_step p Summarize_end = P_Violated"
| "protocol_step (P_Failed ThirdAttempt) (Stop reason) =
     (if reason = FailToSummarize then P_Stopped else P_Violated)"
| "protocol_step p (Stop reason) = P_Violated"
| "protocol_step P_Succeeded Summarizing_resolve = P_Idle"
| "protocol_step P_Stopped Summarizing_resolve = P_Idle"
| "protocol_step p Summarizing_resolve = P_Violated"
| "protocol_step p e = p"

definition protocol :: "effect list \<Rightarrow> protocol_state" where
  "protocol tr = foldl protocol_step P_Idle tr"

text \<open>Where the automaton must be between two turns, given the suspended task.\<close>

definition task_protocol :: "running_summarizer \<Rightarrow> protocol_state" where
  "task_protocol s = (case task s of None \<Rightarrow> P_Idle | Some fr \<Rightarrow> P_Attempting (frame_stage fr))"

definition consistent :: "running_summarizer \<Rightarrow> bool" where
  "consistent s \<longleftrightarrow>
     (summarizing s = None) = (task s = None) \<and> protocol (trace s) = task_protocol s"

text \<open>The messages the raise-warning callback was called with, in order.\<close>

fun warning_of :: "effect \<Rightarrow> string list" where
  "warning_of (RaiseSummarizingError m) = [m]"
| "warning_of e = []"

definition warnings :: "effect list \<Rightarrow> string list" where
  "warnings tr = concat (map warning_of tr)"

text \<open>Several triggers, one after the other.\<close>

definition triggers :: "(summarize_reason \<times> int) list \<Rightarrow> running_summarizer \<Rightarrow> running_summarizer" where
  "triggers rs s = foldl (\<lambda>s (r, now). trySummarize r now s) s rs"

text \<open>Whether a document already has a work item under a work type.\<close>

definition registered :: "'svc worker_service \<Rightarrow> string \<Rightarrow> string \<Rightarrow> bool" where
  "registered s docId workType =
     (case documentMap s docId of None \<Rightarrow> False | Some taskMap \<Rightarrow> taskMap workType \<noteq> None)"

subsection \<open>Concrete inputs\<close>

definition example_config :: summary_configuration where
  "example_config = \<lparr>idleTime = 100, maxTime = 10000, maxOps = 1000, maxAckWaitTime = 5000\<rparr>"

definition example_summarizer :: running_summarizer where
  "example_summarizer =
     RunningSummarizer ''summarizer'' ''parent'' example_config 10
       \<lparr>refSequenceNumber = 5, summaryTime = 0, summarySequenceNumber = None\<rparr>"

definition example_message :: "int \<Rightarrow> message_type \<Rightarrow> sequenced_message" where
  "example_message n t =
     \<lparr>sequenceNumber = n, msg_referenceSequenceNumber = 10, msg_type = t,
      msg_clientId = ''summarizer'', msg_contents = ''none'', msg_timestamp = 0, msg_data = ''none''\<rparr>"

definition example_data :: "bool \<Rightarrow> generate_summary_data" where
  "example_data sent = \<lparr>referenceSequenceNumber = 10, submitted = sent, clientSequenceNumber = 1\<rparr>"

text \<open>A first attempt that has been submitted and broadcast and waits for its ack or nack.\<close>

definition example_in_flight :: running_summarizer where
  "example_in_flight =
     exec [(20, Settled (GenerateSummaryResolved (example_data True))),
           (30, Settled (BroadcastRace (Value (example_message 11 MessageType_Summarize))))]
       (trySummarize Idle 10 example_summarizer)"

definition example_frame :: "await_point \<Rightarrow> frame" where
  "example_frame p = \<lparr>frame_stage = FirstAttempt, frame_point = p, started = 10\<rparr>"

text \<open>
  A flight whose first attempt has begun, the same after \<^verbatim>\<open>generateSummary\<close> has rejected
  once (the second attempt has begun) and twice (the third attempt has begun).
\<close>

definition example_first :: running_summarizer where
  "example_first = trySummarize Idle 10 example_summarizer"

definition example_second :: running_summarizer where
  "example_second = trySummarize_resume 20 GenerateSummaryRejected example_first"

definition example_third :: running_summarizer where
  "example_third = trySummarize_resume 30 GenerateSummaryRejected example_second"

definition example_frame_at :: "stage \<Rightarrow> int \<Rightarrow> frame" where
  "example_frame_at st t = \<lparr>frame_stage = st, frame_point = AwaitGenerateSummary, started = t\<rparr>"

definition example_service :: "string worker_service" where
  "example_service = \<lparr>serverUrl = ''http://alfred'', documentMap = Map.empty, work_trace = []\<rparr>"

section \<open>What the operations leave alone\<close>

lemma summarize_begin_keeps:
  "lastOpSeqNumber (summarize_begin r opts s) = lastOpSeqNumber s"
  "lastAttempted (summarize_begin r opts s) = lastAttempted s"
  "lastAcked (summarize_begin r opts s) = lastAcked s"
  by (simp_all add: summarize_begin_def emit_def Let_def)

lemma trySummarize_keeps:
  "lastOpSeqNumber (trySummarize r now s) = lastOpSeqNumber s"
  "lastAttempted (trySummarize r now s) = lastAttempted s"
  "lastAcked (trySummarize r now s) = lastAcked s"
  "configuration (trySummarize r now s) = configuration s"
  "stopping (trySummarize r now s) = stopping s"
  "disposed (trySummarize r now s) = disposed s"
  by (simp_all add: trySummarize_def summarize_begin_def emit_def Let_def)

lemma run_keeps:
  "lastOpSeqNumber (run now s) = lastOpSeqNumber s"
  "lastAttempted (run now s) = lastAttempted s"
  "lastAcked (run now s) = lastAcked s"
  "configuration (run now s) = configuration s"
  "stopping (run now s) = stopping s"
  "disposed (run now s) = disposed s"
  by (simp_all add: run_def trySummarize_keeps emit_def Let_def)

lemma trySummarize_finally_keeps:
  "lastOpSeqNumber (trySummarize_finally now s) = lastOpSeqNumber s"
  "lastAttempted (trySummarize_finally now s) = lastAttempted s"
  "lastAcked (trySummarize_finally now s) = lastAcked s"
  by (simp_all add: trySummarize_finally_def run_keeps emit_def Let_def split: option.splits)

lemma summarize_resume_keeps:
  "summarizing (fst (summarize_resume now e p s)) = summarizing s"
  "task (fst (summarize_resume now e p s)) = task s"
  "stopping (fst (summarize_resume now e p s)) = stopping s"
  "disposed (fst (summarize_resume now e p s)) = disposed s"
  "tryWhileSummarizing (fst (summarize_resume now e p s)) = tryWhileSummarizing s"
  by (cases e; cases p;
      simp add: fail_def emit_def recordAttempt_def ackLastSent_def Let_def split: option.splits)+

lemma summarize_resume_idle_clears:
  "count_list (trace (fst (summarize_resume now e p s))) IdleTimer_clear =
     count_list (trace s) IdleTimer_clear"
  by (cases e; cases p;
      simp add: fail_def emit_def recordAttempt_def ackLastSent_def Let_def split: option.splits)

lemma run_clears_once:
  "count_list (trace (run now s)) IdleTimer_clear = count_list (trace s) IdleTimer_clear + 1"
  by (simp add: run_def trySummarize_def summarize_begin_def emit_def Let_def)

lemma run_flag:
  "summarizing s = None \<Longrightarrow> tryWhileSummarizing (run now s) = tryWhileSummarizing s"
  by (simp add: run_def trySummarize_def summarize_begin_def emit_def Let_def)

lemma triggers_in_flight:
  "summarizing s \<noteq> None \<Longrightarrow> rs \<noteq> [] \<Longrightarrow>
   triggers rs s = s\<lparr>tryWhileSummarizing := True, trace := trace s @ map (\<lambda>(r, t). TrySummarize r) rs\<rparr>"
proof (induction rs arbitrary: s)
  case Nil
  then show ?case by simp
next
  case (Cons x rs)
  obtain r t where x: "x = (r, t)" by (cases x)
  let ?s1 = "trySummarize r t s"
  have s1: "?s1 = s\<lparr>tryWhileSummarizing := True, trace := trace s @ [TrySummarize r]\<rparr>"
    using Cons.prems(1) by (simp add: trySummarize_def emit_def Let_def)
  show ?case
  proof (cases "rs = []")
    case True
    then show ?thesis using s1 x by (simp add: triggers_def)
  next
    case False
    have "summarizing ?s1 \<noteq> None" using Cons.prems(1) s1 by simp
    from Cons.IH [OF this False] have "triggers rs ?s1 =
        ?s1\<lparr>tryWhileSummarizing := True, trace := trace ?s1 @ map (\<lambda>(r, t). TrySummarize r) rs\<rparr>" .
    moreover have "triggers (x # rs) s = triggers rs ?s1" using x by (simp add: triggers_def)
    ultimately show ?thesis using s1 x by simp
  qed
qed

lemma startTask_trace:
  "work_trace (startTask docId workType worker s) =
     work_trace s @ StartTask docId workType worker #
       (if registered s docId workType then []
        else [ConsoleLog (''Starting work '' @ workType @ '' for document '' @ docId), Start worker])"
  "registered (startTask docId workType worker s) docId workType"
  "serverUrl (startTask docId workType worker s) = serverUrl s"
  by (auto simp: startTask_def registered_def work_emit_def Let_def split: option.splits)

lemma work_emit_simps:
  "registered (work_emit e s) docId workType = registered s docId workType"
  "work_trace (work_emit e s) = work_trace s @ [e]"
  "serverUrl (work_emit e s) = serverUrl s"
  by (simp_all add: work_emit_def registered_def)

lemma example_in_flight_eval:
  "task example_in_flight = Some (example_frame (AwaitAckNack 1))"
  "summarizing example_in_flight = Some Deferred"
  "\<not> stopping example_in_flight"
  "\<not> disposed example_in_flight"
  "\<not> tryWhileSummarizing example_in_flight"
  "lastOpSeqNumber example_in_flight = 10"
  "lastAcked example_in_flight =
     \<lparr>refSequenceNumber = 5, summaryTime = 0, summarySequenceNumber = None\<rparr>"
  "configuration example_in_flight = example_config"
  by (simp_all add: example_in_flight_def exec_def trySummarize_resume_def trySummarize_def
        summarize_begin_def emit_def recordAttempt_def example_summarizer_def RunningSummarizer_def
        example_data_def example_message_def example_frame_def Let_def)

section \<open>The retry escalation follows the protocol\<close>

lemma protocol_append [simp]: "protocol (tr @ es) = foldl protocol_step (protocol tr) es"
  by (simp add: protocol_def)

lemma protocol_Nil [simp]: "protocol [] = P_Idle"
  by (simp add: protocol_def)

lemma protocol_step_violated: "protocol_step P_Violated e = P_Violated"
  by (cases e) simp_all

lemma protocol_violated: "foldl protocol_step P_Violated es = P_Violated"
  by (induction es) (simp_all add: protocol_step_violated)

lemma protocol_prefix:
  assumes "protocol tr \<noteq> P_Violated"
  shows "protocol (take n tr) \<noteq> P_Violated"
proof
  assume v: "protocol (take n tr) = P_Violated"
  have "protocol tr = protocol (take n tr @ drop n tr)" by simp
  also have "\<dots> = foldl protocol_step (protocol (take n tr)) (drop n tr)"
    by (rule protocol_append)
  also have "\<dots> = P_Violated" using v by (simp add: protocol_violated)
  finally show False using assms by simp
qed

lemma protocol_step_cancel:
  "protocol_step q (Summarize_cancel SummaryOpWaitTimeout) =
     protocol_step q (Summarize_cancel GenerateSummaryFailure)"
  "protocol_step q (Summarize_cancel SummaryAckWaitTimeout) =
     protocol_step q (Summarize_cancel GenerateSummaryFailure)"
  "protocol_step q (Summarize_cancel SummaryNack) =
     protocol_step q (Summarize_cancel GenerateSummaryFailure)"
  by (cases q; simp)+

lemma trySummarize_consistent: "consistent s \<Longrightarrow> consistent (trySummarize r now s)"
  by (cases "task s")
     (auto simp: consistent_def task_protocol_def trySummarize_def summarize_begin_def emit_def Let_def)

lemma run_consistent:
  assumes c: "consistent s"
  shows "consistent (run now s)"
proof -
  have c1: "consistent ((emit IdleTimer_clear s)\<lparr>idleTimer := False\<rparr>)"
    using c by (cases "task s") (auto simp: consistent_def task_protocol_def emit_def)
  have c2: "consistent ((emit (IdleTimer_restart d)
              ((emit IdleTimer_clear s)\<lparr>idleTimer := False\<rparr>))\<lparr>idleTimer := True\<rparr>)" for d
    using c by (cases "task s") (auto simp: consistent_def task_protocol_def emit_def)
  show ?thesis
    using c1 c2 by (simp add: run_def Let_def trySummarize_consistent)
qed

lemma handleOp_consistent:
  assumes c: "consistent s"
  shows "consistent (handleOp now err op s)"
proof -
  have "consistent (s\<lparr>lastOpSeqNumber := n\<rparr>)" for n
    using c by (simp add: consistent_def task_protocol_def)
  then show ?thesis using c
    by (simp add: handleOp_def Let_def trySummarize_consistent run_consistent)
qed

lemma handleSystemOp_consistent: "consistent s \<Longrightarrow> consistent (handleSystemOp now op s)"
  by (simp add: handleSystemOp_def handleOp_consistent)

lemma idleTimer_fired_consistent:
  assumes c: "consistent s"
  shows "consistent (idleTimer_fired now s)"
proof -
  have "consistent (s\<lparr>idleTimer := False\<rparr>)"
    using c by (simp add: consistent_def task_protocol_def)
  then show ?thesis using c by (simp add: idleTimer_fired_def trySummarize_consistent)
qed

lemma pendingAckTimer_fired_consistent: "consistent s \<Longrightarrow> consistent (pendingAckTimer_fired s)"
  by (cases "task s") (auto simp: pendingAckTimer_fired_def consistent_def task_protocol_def emit_def)

lemma waitStop_consistent:
  assumes c: "consistent s"
  shows "consistent (fst (waitStop now s))"
proof -
  have "consistent (s\<lparr>stopping := True\<rparr>)"
    using c by (simp add: consistent_def task_protocol_def)
  then show ?thesis using c by (simp add: waitStop_def Let_def trySummarize_consistent)
qed

lemma dispose_consistent: "consistent s \<Longrightarrow> consistent (dispose s)"
  by (cases "task s") (auto simp: dispose_def consistent_def task_protocol_def emit_def)

lemma summarize_resume_protocol_fst:
  "protocol (trace (fst (summarize_resume now e p s))) =
     (case snd (summarize_resume now e p s) of
        Suspended p' \<Rightarrow> protocol (trace s)
      | Returned True \<Rightarrow> protocol_step (protocol (trace s)) Summarize_end
      | Returned False \<Rightarrow> protocol_step (protocol (trace s)) (Summarize_cancel GenerateSummaryFailure))"
  by (cases e; cases p;
      simp add: fail_def emit_def recordAttempt_def ackLastSent_def Let_def protocol_step_cancel
           split: option.split)

lemma summarize_resume_protocol:
  assumes "summarize_resume now e p s = (s1, st)"
  shows "summarizing s1 = summarizing s \<and> task s1 = task s
       \<and> protocol (trace s1) =
           (case st of Suspended p' \<Rightarrow> protocol (trace s)
            | Returned True \<Rightarrow> protocol_step (protocol (trace s)) Summarize_end
            | Returned False \<Rightarrow>
                protocol_step (protocol (trace s)) (Summarize_cancel GenerateSummaryFailure))"
  using summarize_resume_protocol_fst [of now e p s] summarize_resume_keeps(1,2) [of now e p s] assms
  by simp

lemma trySummarize_finally_consistent:
  assumes "summarizing s \<noteq> None"
    and "protocol (trace s) = P_Succeeded \<or> protocol (trace s) = P_Stopped"
  shows "consistent (trySummarize_finally now s)"
proof -
  obtain d where d: "summarizing s = Some d" using assms(1) by auto
  let ?s1 = "(emit Summarizing_resolve s)\<lparr>summarizing := None, task := None\<rparr>"
  have c1: "consistent ?s1" using assms(2)
    by (auto simp: consistent_def task_protocol_def emit_def)
  then have c2: "consistent (?s1\<lparr>tryWhileSummarizing := False\<rparr>)"
    by (simp add: consistent_def task_protocol_def)
  show ?thesis using d c1 run_consistent [OF c2]
    by (simp add: trySummarize_finally_def Let_def)
qed

lemma trySummarize_resume_consistent:
  assumes c: "consistent s"
  shows "consistent (trySummarize_resume now e s)"
proof (cases "task s")
  case None
  then show ?thesis using c by (simp add: trySummarize_resume_def)
next
  case (Some fr)
  obtain s1 st where r: "summarize_resume now e (frame_point fr) s = (s1, st)"
    by (cases "summarize_resume now e (frame_point fr) s")
  note p = summarize_resume_protocol [OF r]
  have pre: "protocol (trace s) = P_Attempting (frame_stage fr)" "summarizing s \<noteq> None"
    using c Some by (auto simp: consistent_def task_protocol_def)
  show ?thesis
  proof (cases st)
    case (Suspended p')
    then show ?thesis using Some r p pre
      by (simp add: trySummarize_resume_def consistent_def task_protocol_def)
  next
    case (Returned b)
    show ?thesis
    proof (cases b)
      case True
      have "consistent (trySummarize_finally now s1)"
        using p pre Returned True by (intro trySummarize_finally_consistent) simp_all
      then show ?thesis using Some r Returned True by (simp add: trySummarize_resume_def)
    next
      case False
      have failed: "protocol (trace s1) = P_Failed (frame_stage fr)" "summarizing s1 \<noteq> None"
        using p pre Returned False by simp_all
      show ?thesis
      proof (cases "frame_stage fr")
        case FirstAttempt
        then show ?thesis using Some r Returned False failed
          by (simp add: trySummarize_resume_def consistent_def task_protocol_def
                summarize_begin_def emit_def Let_def)
      next
        case SecondAttempt
        then show ?thesis using Some r Returned False failed
          by (simp add: trySummarize_resume_def consistent_def task_protocol_def
                summarize_begin_def emit_def Let_def)
      next
        case ThirdAttempt
        have "consistent (trySummarize_finally now
                (emit (Stop FailToSummarize) (emit (SendErrorEvent ''FailToSummarize'') s1)))"
          using failed ThirdAttempt
          by (intro trySummarize_finally_consistent) (simp_all add: emit_def)
        then show ?thesis using Some r Returned False ThirdAttempt
          by (simp add: trySummarize_resume_def)
      qed
    qed
  qed
qed

lemma step_consistent:
  assumes c: "consistent s"
  shows "consistent (step s ev)"
proof -
  obtain now x where ev: "ev = (now, x)" by (cases ev)
  show ?thesis using c unfolding ev
    by (cases x)
       (simp_all add: handleOp_consistent handleSystemOp_consistent idleTimer_fired_consistent
          pendingAckTimer_fired_consistent trySummarize_resume_consistent waitStop_consistent
          dispose_consistent)
qed

lemma exec_consistent: "consistent s \<Longrightarrow> consistent (exec evs s)"
  unfolding exec_def by (induction evs arbitrary: s) (simp_all add: step_consistent)

lemma start_consistent: "consistent (start cid obo cfg lastOp firstAck maybe now)"
proof -
  let ?s0 = "(RunningSummarizer cid obo cfg lastOp firstAck)\<lparr>pendingAckTimer := True\<rparr>"
  have c0: "consistent ?s0"
    by (simp add: RunningSummarizer_def consistent_def task_protocol_def)
  have c1: "consistent (case maybe of PromiseTimerResult \<Rightarrow> pendingAckTimer_fired ?s0 | _ \<Rightarrow> ?s0)"
    using c0 by (cases maybe) (simp_all add: pendingAckTimer_fired_consistent)
  have keep: "consistent (x\<lparr>pendingAckTimer := False\<rparr>)"
    "consistent (initialize a (x\<lparr>pendingAckTimer := False\<rparr>))" if "consistent x" for x a
    using that by (simp_all add: consistent_def task_protocol_def initialize_def)
  have "consistent (waitStart maybe (RunningSummarizer cid obo cfg lastOp firstAck))"
    using keep [OF c1] by (simp add: waitStart_def Let_def split: option.splits)
  then show ?thesis by (simp add: start_def run_consistent)
qed

text \<open>
  A run in which all three attempts fail: the first and the third because
  \<^verbatim>\<open>generateSummary\<close> rejects, the second because the summary was not submitted.
\<close>

lemma three_failures_example:
  "trace (exec [(20, Settled GenerateSummaryRejected),
                (30, Settled (GenerateSummaryResolved (example_data False))),
                (40, Settled GenerateSummaryRejected)]
            (trySummarize Idle 10 example_summarizer)) =
     [TrySummarize Idle,
      Summarize_start Idle \<lparr>refreshLatestAck = False, fullTree = False\<rparr>,
      GenerateSummary \<lparr>refreshLatestAck = False, fullTree = False\<rparr>,
      RaiseSummarizingError ''Error while generating or submitting summary'',
      Summarize_cancel GenerateSummaryFailure,
      Summarize_start Retry1 \<lparr>refreshLatestAck = True, fullTree = False\<rparr>,
      GenerateSummary \<lparr>refreshLatestAck = True, fullTree = False\<rparr>,
      SendTelemetryEvent ''GenerateSummary'',
      RaiseSummarizingError ''Error while generating or submitting summary'',
      Summarize_cancel GenerateSummaryFailure,
      Summarize_start Retry2 \<lparr>refreshLatestAck = True, fullTree = True\<rparr>,
      GenerateSummary \<lparr>refreshLatestAck = True, fullTree = True\<rparr>,
      RaiseSummarizingError ''Error while generating or submitting summary'',
      Summarize_cancel GenerateSummaryFailure,
      SendErrorEvent ''FailToSummarize'',
      Stop FailToSummarize,
      Summarizing_resolve]"
  by (simp add: exec_def trySummarize_resume_def trySummarize_def trySummarize_finally_def
        summarize_begin_def fail_def emit_def recordAttempt_def example_summarizer_def
        RunningSummarizer_def example_data_def Let_def)

lemma summarize_resume_configuration:
  "configuration (fst (summarize_resume now e p s)) = configuration s"
  by (cases e; cases p;
      simp add: fail_def emit_def recordAttempt_def ackLastSent_def Let_def split: option.splits)

lemma run_trace_idle:
  assumes "summarizing s = None"
  shows "trace (run now s) = trace s @ [IdleTimer_clear, IdleTimer_restart (idleTime (configuration s))]
       \<or> trace (run now s) =
           trace s @ [IdleTimer_clear, TrySummarize MaxTime,
                      Summarize_start MaxTime \<lparr>refreshLatestAck = False, fullTree = False\<rparr>,
                      GenerateSummary \<lparr>refreshLatestAck = False, fullTree = False\<rparr>]
       \<or> trace (run now s) =
           trace s @ [IdleTimer_clear, TrySummarize MaxOps,
                      Summarize_start MaxOps \<lparr>refreshLatestAck = False, fullTree = False\<rparr>,
                      GenerateSummary \<lparr>refreshLatestAck = False, fullTree = False\<rparr>]"
  using assms by (simp add: run_def trySummarize_def summarize_begin_def emit_def Let_def)

lemma trySummarize_finally_trace:
  assumes "summarizing s \<noteq> None"
  shows "\<exists>follow. trace (trySummarize_finally now s) = trace s @ Summarizing_resolve # follow
       \<and> (follow = []
          \<or> follow = [IdleTimer_clear, IdleTimer_restart (idleTime (configuration s))]
          \<or> follow = [IdleTimer_clear, TrySummarize MaxTime,
                       Summarize_start MaxTime \<lparr>refreshLatestAck = False, fullTree = False\<rparr>,
                       GenerateSummary \<lparr>refreshLatestAck = False, fullTree = False\<rparr>]
          \<or> follow = [IdleTimer_clear, TrySummarize MaxOps,
                       Summarize_start MaxOps \<lparr>refreshLatestAck = False, fullTree = False\<rparr>,
                       GenerateSummary \<lparr>refreshLatestAck = False, fullTree = False\<rparr>])"
proof -
  obtain d where d: "summarizing s = Some d" using assms by auto
  let ?s1 = "(emit Summarizing_resolve s)\<lparr>summarizing := None, task := None\<rparr>"
  show ?thesis
  proof (cases "tryWhileSummarizing s \<and> \<not> stopping s \<and> \<not> disposed s")
    case False
    then have "trace (trySummarize_finally now s) = trace s @ Summarizing_resolve # []"
      using d by (auto simp: trySummarize_finally_def emit_def Let_def)
    then show ?thesis by blast
  next
    case True
    let ?s2 = "?s1\<lparr>tryWhileSummarizing := False\<rparr>"
    have f: "trySummarize_finally now s = run now ?s2"
      using d True by (simp add: trySummarize_finally_def emit_def Let_def)
    have n: "summarizing ?s2 = None" by simp
    have t: "trace ?s2 = trace s @ [Summarizing_resolve]"
      and c: "configuration ?s2 = configuration s" by (simp_all add: emit_def)
    from run_trace_idle [OF n, of now] show ?thesis
      unfolding f t c by auto
  qed
qed

lemma example_flight_eval:
  "summarizing example_summarizer = None"
  "task example_first = Some (example_frame AwaitGenerateSummary)"
  "task example_second = Some (example_frame_at SecondAttempt 20)"
  "task example_third = Some (example_frame_at ThirdAttempt 30)"
  "summarizing example_third \<noteq> None"
  "trace example_third =
     [TrySummarize Idle,
      Summarize_start Idle \<lparr>refreshLatestAck = False, fullTree = False\<rparr>,
      GenerateSummary \<lparr>refreshLatestAck = False, fullTree = False\<rparr>,
      RaiseSummarizingError ''Error while generating or submitting summary'',
      Summarize_cancel GenerateSummaryFailure,
      Summarize_start Retry1 \<lparr>refreshLatestAck = True, fullTree = False\<rparr>,
      GenerateSummary \<lparr>refreshLatestAck = True, fullTree = False\<rparr>,
      RaiseSummarizingError ''Error while generating or submitting summary'',
      Summarize_cancel GenerateSummaryFailure,
      Summarize_start Retry2 \<lparr>refreshLatestAck = True, fullTree = True\<rparr>,
      GenerateSummary \<lparr>refreshLatestAck = True, fullTree = True\<rparr>]"
  by (simp_all add: example_first_def example_second_def example_third_def
        trySummarize_resume_def trySummarize_def summarize_begin_def fail_def emit_def
        recordAttempt_def example_summarizer_def RunningSummarizer_def example_frame_def
        example_frame_at_def Let_def)

section \<open>The claims\<close>

text \<open>
  C1. Retry escalation. A trigger that finds no attempt in flight begins the first attempt:
  it starts the performance event with the trigger's reason and calls
  \<^verbatim>\<open>generateSummary\<close> with \<^verbatim>\<open>refreshLatestAck: false, fullTree: false\<close>. When the
  first attempt returns false, the same turn begins the attempt \<^verbatim>\<open>retry1\<close> with
  \<^verbatim>\<open>refreshLatestAck: true, fullTree: false\<close>; when the second returns false, the
  attempt \<^verbatim>\<open>retry2\<close> with \<^verbatim>\<open>refreshLatestAck: true, fullTree: true\<close>; when the third
  returns false, \<^verbatim>\<open>stop("failToSummarize")\<close> is called (after the error event), the
  signal is resolved and the flight is over. When an attempt returns true the signal is
  resolved at once. What may follow the resolution in that turn is only the coalesced run of
  the heuristics: nothing, or the idle timer cleared and restarted, or the idle timer
  cleared and a new trigger with \<^verbatim>\<open>maxTime\<close> or \<^verbatim>\<open>maxOps\<close> beginning its own first
  attempt. So no trigger has a fourth attempt. And over whole executions: start a running
  summarizer and let anything happen to it, in any order and at any time (ops, system ops,
  timers firing, promises settling, \<^verbatim>\<open>waitStop\<close>, \<^verbatim>\<open>dispose\<close>); between two turns the
  trace it has produced is always accepted by the escalation protocol (no prefix of it is a
  violation), and the protocol is idle when no task is suspended and inside the attempt of
  the task's stage otherwise.
\<close>

theorem escalation_protocol:
  "protocol (trace (exec evs (start cid obo cfg lastOp firstAck maybe now))) =
     (case task (exec evs (start cid obo cfg lastOp firstAck maybe now)) of
        None \<Rightarrow> P_Idle
      | Some fr \<Rightarrow> P_Attempting (frame_stage fr))
   \<and> (\<forall>n. protocol (take n (trace (exec evs (start cid obo cfg lastOp firstAck maybe now))))
            \<noteq> P_Violated)
   \<and> (summarizing sz = None \<longrightarrow>
        trace (trySummarize r t sz) =
          trace sz @ [TrySummarize r,
                      Summarize_start r \<lparr>refreshLatestAck = False, fullTree = False\<rparr>,
                      GenerateSummary \<lparr>refreshLatestAck = False, fullTree = False\<rparr>]
        \<and> task (trySummarize r t sz) =
            Some \<lparr>frame_stage = FirstAttempt, frame_point = AwaitGenerateSummary, started = t\<rparr>
        \<and> summarizing (trySummarize r t sz) \<noteq> None)
   \<and> (task sa = Some fa \<and> frame_stage fa = FirstAttempt
        \<and> snd (summarize_resume na ea (frame_point fa) sa) = Returned False \<longrightarrow>
        trace (trySummarize_resume na ea sa) =
          trace (fst (summarize_resume na ea (frame_point fa) sa)) @
            [Summarize_start Retry1 \<lparr>refreshLatestAck = True, fullTree = False\<rparr>,
             GenerateSummary \<lparr>refreshLatestAck = True, fullTree = False\<rparr>]
        \<and> task (trySummarize_resume na ea sa) =
            Some \<lparr>frame_stage = SecondAttempt, frame_point = AwaitGenerateSummary, started = na\<rparr>)
   \<and> (task sb = Some fb \<and> frame_stage fb = SecondAttempt
        \<and> snd (summarize_resume nb eb (frame_point fb) sb) = Returned False \<longrightarrow>
        trace (trySummarize_resume nb eb sb) =
          trace (fst (summarize_resume nb eb (frame_point fb) sb)) @
            [Summarize_start Retry2 \<lparr>refreshLatestAck = True, fullTree = True\<rparr>,
             GenerateSummary \<lparr>refreshLatestAck = True, fullTree = True\<rparr>]
        \<and> task (trySummarize_resume nb eb sb) =
            Some \<lparr>frame_stage = ThirdAttempt, frame_point = AwaitGenerateSummary, started = nb\<rparr>)
   \<and> (task sc = Some fc \<and> frame_stage fc = ThirdAttempt \<and> summarizing sc \<noteq> None
        \<and> snd (summarize_resume nc ec (frame_point fc) sc) = Returned False \<longrightarrow>
        (\<exists>follow.
           trace (trySummarize_resume nc ec sc) =
             trace (fst (summarize_resume nc ec (frame_point fc) sc)) @
               [SendErrorEvent ''FailToSummarize'', Stop FailToSummarize, Summarizing_resolve] @ follow
           \<and> (follow = []
              \<or> follow = [IdleTimer_clear, IdleTimer_restart (idleTime (configuration sc))]
              \<or> follow = [IdleTimer_clear, TrySummarize MaxTime,
                           Summarize_start MaxTime \<lparr>refreshLatestAck = False, fullTree = False\<rparr>,
                           GenerateSummary \<lparr>refreshLatestAck = False, fullTree = False\<rparr>]
              \<or> follow = [IdleTimer_clear, TrySummarize MaxOps,
                           Summarize_start MaxOps \<lparr>refreshLatestAck = False, fullTree = False\<rparr>,
                           GenerateSummary \<lparr>refreshLatestAck = False, fullTree = False\<rparr>])))
   \<and> (task sd = Some fd \<and> summarizing sd \<noteq> None
        \<and> snd (summarize_resume nd ed (frame_point fd) sd) = Returned True \<longrightarrow>
        (\<exists>follow.
           trace (trySummarize_resume nd ed sd) =
             trace (fst (summarize_resume nd ed (frame_point fd) sd)) @ Summarizing_resolve # follow
           \<and> (follow = []
              \<or> follow = [IdleTimer_clear, IdleTimer_restart (idleTime (configuration sd))]
              \<or> follow = [IdleTimer_clear, TrySummarize MaxTime,
                           Summarize_start MaxTime \<lparr>refreshLatestAck = False, fullTree = False\<rparr>,
                           GenerateSummary \<lparr>refreshLatestAck = False, fullTree = False\<rparr>]
              \<or> follow = [IdleTimer_clear, TrySummarize MaxOps,
                           Summarize_start MaxOps \<lparr>refreshLatestAck = False, fullTree = False\<rparr>,
                           GenerateSummary \<lparr>refreshLatestAck = False, fullTree = False\<rparr>])))"
proof (intro conjI impI; (elim conjE)?)
  let ?s = "exec evs (start cid obo cfg lastOp firstAck maybe now)"
  have c: "consistent ?s" by (rule exec_consistent [OF start_consistent])
  then show final: "protocol (trace ?s) =
      (case task ?s of None \<Rightarrow> P_Idle | Some fr \<Rightarrow> P_Attempting (frame_stage fr))"
    by (simp add: consistent_def task_protocol_def)
  then have "protocol (trace ?s) \<noteq> P_Violated" by (simp split: option.splits)
  then show "\<forall>n. protocol (take n (trace ?s)) \<noteq> P_Violated"
    by (simp add: protocol_prefix)
next
  assume "summarizing sz = None"
  then show "trace (trySummarize r t sz) =
          trace sz @ [TrySummarize r,
                      Summarize_start r \<lparr>refreshLatestAck = False, fullTree = False\<rparr>,
                      GenerateSummary \<lparr>refreshLatestAck = False, fullTree = False\<rparr>]"
    and "task (trySummarize r t sz) =
            Some \<lparr>frame_stage = FirstAttempt, frame_point = AwaitGenerateSummary, started = t\<rparr>"
    and "summarizing (trySummarize r t sz) \<noteq> None"
    by (simp_all add: trySummarize_def summarize_begin_def emit_def Let_def)
next
  assume h: "task sa = Some fa" "frame_stage fa = FirstAttempt"
    "snd (summarize_resume na ea (frame_point fa) sa) = Returned False"
  obtain s1 where r: "summarize_resume na ea (frame_point fa) sa = (s1, Returned False)"
    using h(3) by (cases "summarize_resume na ea (frame_point fa) sa") simp
  show "trace (trySummarize_resume na ea sa) =
          trace (fst (summarize_resume na ea (frame_point fa) sa)) @
            [Summarize_start Retry1 \<lparr>refreshLatestAck = True, fullTree = False\<rparr>,
             GenerateSummary \<lparr>refreshLatestAck = True, fullTree = False\<rparr>]"
    and "task (trySummarize_resume na ea sa) =
            Some \<lparr>frame_stage = SecondAttempt, frame_point = AwaitGenerateSummary, started = na\<rparr>"
    using h(1,2) r by (simp_all add: trySummarize_resume_def summarize_begin_def emit_def Let_def)
next
  assume h: "task sb = Some fb" "frame_stage fb = SecondAttempt"
    "snd (summarize_resume nb eb (frame_point fb) sb) = Returned False"
  obtain s1 where r: "summarize_resume nb eb (frame_point fb) sb = (s1, Returned False)"
    using h(3) by (cases "summarize_resume nb eb (frame_point fb) sb") simp
  show "trace (trySummarize_resume nb eb sb) =
          trace (fst (summarize_resume nb eb (frame_point fb) sb)) @
            [Summarize_start Retry2 \<lparr>refreshLatestAck = True, fullTree = True\<rparr>,
             GenerateSummary \<lparr>refreshLatestAck = True, fullTree = True\<rparr>]"
    and "task (trySummarize_resume nb eb sb) =
            Some \<lparr>frame_stage = ThirdAttempt, frame_point = AwaitGenerateSummary, started = nb\<rparr>"
    using h(1,2) r by (simp_all add: trySummarize_resume_def summarize_begin_def emit_def Let_def)
next
  assume h: "task sc = Some fc" "frame_stage fc = ThirdAttempt" "summarizing sc \<noteq> None"
    "snd (summarize_resume nc ec (frame_point fc) sc) = Returned False"
  obtain s1 where r: "summarize_resume nc ec (frame_point fc) sc = (s1, Returned False)"
    using h(4) by (cases "summarize_resume nc ec (frame_point fc) sc") simp
  let ?s2 = "emit (Stop FailToSummarize) (emit (SendErrorEvent ''FailToSummarize'') s1)"
  have s1: "summarizing s1 \<noteq> None" "configuration s1 = configuration sc"
    using summarize_resume_keeps(1) [of nc ec "frame_point fc" sc]
      summarize_resume_configuration [of nc ec "frame_point fc" sc] r h(3) by simp_all
  have f: "trySummarize_resume nc ec sc = trySummarize_finally nc ?s2"
    using h(1,2) r by (simp add: trySummarize_resume_def)
  have s2: "summarizing ?s2 \<noteq> None" "configuration ?s2 = configuration sc"
    "trace ?s2 = trace s1 @ [SendErrorEvent ''FailToSummarize'', Stop FailToSummarize]"
    using s1 by (simp_all add: emit_def)
  from trySummarize_finally_trace [OF s2(1), of nc]
  show "\<exists>follow.
           trace (trySummarize_resume nc ec sc) =
             trace (fst (summarize_resume nc ec (frame_point fc) sc)) @
               [SendErrorEvent ''FailToSummarize'', Stop FailToSummarize, Summarizing_resolve] @ follow
           \<and> (follow = []
              \<or> follow = [IdleTimer_clear, IdleTimer_restart (idleTime (configuration sc))]
              \<or> follow = [IdleTimer_clear, TrySummarize MaxTime,
                           Summarize_start MaxTime \<lparr>refreshLatestAck = False, fullTree = False\<rparr>,
                           GenerateSummary \<lparr>refreshLatestAck = False, fullTree = False\<rparr>]
              \<or> follow = [IdleTimer_clear, TrySummarize MaxOps,
                           Summarize_start MaxOps \<lparr>refreshLatestAck = False, fullTree = False\<rparr>,
                           GenerateSummary \<lparr>refreshLatestAck = False, fullTree = False\<rparr>])"
    unfolding f s2(2,3) r by auto
next
  assume h: "task sd = Some fd" "summarizing sd \<noteq> None"
    "snd (summarize_resume nd ed (frame_point fd) sd) = Returned True"
  obtain s1 where r: "summarize_resume nd ed (frame_point fd) sd = (s1, Returned True)"
    using h(3) by (cases "summarize_resume nd ed (frame_point fd) sd") simp
  have s1: "summarizing s1 \<noteq> None" "configuration s1 = configuration sd"
    using summarize_resume_keeps(1) [of nd ed "frame_point fd" sd]
      summarize_resume_configuration [of nd ed "frame_point fd" sd] r h(2) by simp_all
  have f: "trySummarize_resume nd ed sd = trySummarize_finally nd s1"
    using h(1) r by (simp add: trySummarize_resume_def)
  from trySummarize_finally_trace [OF s1(1), of nd]
  show "\<exists>follow.
           trace (trySummarize_resume nd ed sd) =
             trace (fst (summarize_resume nd ed (frame_point fd) sd)) @ Summarizing_resolve # follow
           \<and> (follow = []
              \<or> follow = [IdleTimer_clear, IdleTimer_restart (idleTime (configuration sd))]
              \<or> follow = [IdleTimer_clear, TrySummarize MaxTime,
                           Summarize_start MaxTime \<lparr>refreshLatestAck = False, fullTree = False\<rparr>,
                           GenerateSummary \<lparr>refreshLatestAck = False, fullTree = False\<rparr>]
              \<or> follow = [IdleTimer_clear, TrySummarize MaxOps,
                           Summarize_start MaxOps \<lparr>refreshLatestAck = False, fullTree = False\<rparr>,
                           GenerateSummary \<lparr>refreshLatestAck = False, fullTree = False\<rparr>])"
    unfolding f s1(2) r by simp
qed

theorem escalation_protocol_witness:
  "summarizing example_summarizer = None
   \<and> task example_first = Some (example_frame AwaitGenerateSummary)
   \<and> snd (summarize_resume 20 GenerateSummaryRejected AwaitGenerateSummary example_first) = Returned False
   \<and> task example_second = Some (example_frame_at SecondAttempt 20)
   \<and> snd (summarize_resume 30 GenerateSummaryRejected AwaitGenerateSummary example_second) = Returned False
   \<and> task example_third = Some (example_frame_at ThirdAttempt 30)
   \<and> summarizing example_third \<noteq> None
   \<and> snd (summarize_resume 40 GenerateSummaryRejected AwaitGenerateSummary example_third) = Returned False
   \<and> task example_in_flight = Some (example_frame (AwaitAckNack 1))
   \<and> summarizing example_in_flight \<noteq> None
   \<and> snd (summarize_resume 40 (AckNackRace (Value (example_message 12 MessageType_SummaryAck)))
            (AwaitAckNack 1) example_in_flight) = Returned True
   \<and> trace (trySummarize Idle 10 example_summarizer) =
       trace example_summarizer @
         [TrySummarize Idle,
          Summarize_start Idle \<lparr>refreshLatestAck = False, fullTree = False\<rparr>,
          GenerateSummary \<lparr>refreshLatestAck = False, fullTree = False\<rparr>]
   \<and> trace (trySummarize_resume 20 GenerateSummaryRejected example_first) =
       trace (fst (summarize_resume 20 GenerateSummaryRejected AwaitGenerateSummary example_first)) @
         [Summarize_start Retry1 \<lparr>refreshLatestAck = True, fullTree = False\<rparr>,
          GenerateSummary \<lparr>refreshLatestAck = True, fullTree = False\<rparr>]
   \<and> trace (trySummarize_resume 30 GenerateSummaryRejected example_second) =
       trace (fst (summarize_resume 30 GenerateSummaryRejected AwaitGenerateSummary example_second)) @
         [Summarize_start Retry2 \<lparr>refreshLatestAck = True, fullTree = True\<rparr>,
          GenerateSummary \<lparr>refreshLatestAck = True, fullTree = True\<rparr>]
   \<and> (\<exists>follow. trace (trySummarize_resume 40 GenerateSummaryRejected example_third) =
         trace (fst (summarize_resume 40 GenerateSummaryRejected AwaitGenerateSummary example_third)) @
           [SendErrorEvent ''FailToSummarize'', Stop FailToSummarize, Summarizing_resolve] @ follow)
   \<and> (\<exists>follow. trace (trySummarize_resume 40
                    (AckNackRace (Value (example_message 12 MessageType_SummaryAck))) example_in_flight) =
         trace (fst (summarize_resume 40 (AckNackRace (Value (example_message 12 MessageType_SummaryAck)))
                       (AwaitAckNack 1) example_in_flight)) @ Summarizing_resolve # follow)"
proof -
  let ?ack = "AckNackRace (Value (example_message 12 MessageType_SummaryAck))"
  have fp: "frame_point (example_frame AwaitGenerateSummary) = AwaitGenerateSummary"
    "frame_point (example_frame (AwaitAckNack 1)) = AwaitAckNack 1"
    "frame_point (example_frame_at SecondAttempt 20) = AwaitGenerateSummary"
    "frame_point (example_frame_at ThirdAttempt 30) = AwaitGenerateSummary"
    and fs: "frame_stage (example_frame AwaitGenerateSummary) = FirstAttempt"
    "frame_stage (example_frame_at SecondAttempt 20) = SecondAttempt"
    "frame_stage (example_frame_at ThirdAttempt 30) = ThirdAttempt"
    by (simp_all add: example_frame_def example_frame_at_def)
  have h: "snd (summarize_resume 20 GenerateSummaryRejected AwaitGenerateSummary example_first) = Returned False"
    "snd (summarize_resume 30 GenerateSummaryRejected AwaitGenerateSummary example_second) = Returned False"
    "snd (summarize_resume 40 GenerateSummaryRejected AwaitGenerateSummary example_third) = Returned False"
    "snd (summarize_resume 40 ?ack (AwaitAckNack 1) example_in_flight) = Returned True"
    by (simp_all add: example_message_def)
  have g: "summarizing example_in_flight \<noteq> None"
    by (simp add: example_in_flight_eval)
  note inst = escalation_protocol [where sz = example_summarizer and r = Idle and t = 10
          and sa = example_first and fa = "example_frame AwaitGenerateSummary"
          and na = 20 and ea = GenerateSummaryRejected
          and sb = example_second and fb = "example_frame_at SecondAttempt 20"
          and nb = 30 and eb = GenerateSummaryRejected
          and sc = example_third and fc = "example_frame_at ThirdAttempt 30"
          and nc = 40 and ec = GenerateSummaryRejected
          and sd = example_in_flight and fd = "example_frame (AwaitAckNack 1)"
          and nd = 40 and ed = ?ack, unfolded fp]
  show ?thesis
    using inst example_flight_eval(1-5) example_in_flight_eval(1) g h fs
    by blast
qed

text \<open>
  C2. Single flight and coalescing. While the \<^verbatim>\<open>summarizing\<close> signal is set, a call of
  \<^verbatim>\<open>trySummarize\<close> sets \<^verbatim>\<open>tryWhileSummarizing\<close> and does nothing else (the trace
  records the call); any positive number of such calls leaves the same state as one. When
  the flight then completes (an attempt returns true, or the third attempt returns false)
  with the flag set and the summarizer neither stopping nor disposed, the heuristics run
  exactly once in that turn (every run clears the idle timer once, and nothing else in the
  turn does) and the flag is cleared.
\<close>

theorem coalesced_follow_up:
  assumes "summarizing s \<noteq> None" and "task s = Some fr"
  shows "trySummarize r t s = s\<lparr>tryWhileSummarizing := True, trace := trace s @ [TrySummarize r]\<rparr>
       \<and> (rs \<noteq> [] \<longrightarrow>
            triggers rs s =
              s\<lparr>tryWhileSummarizing := True,
                trace := trace s @ map (\<lambda>(r, t). TrySummarize r) rs\<rparr>)
       \<and> (tryWhileSummarizing s \<and> \<not> stopping s \<and> \<not> disposed s
          \<and> (snd (summarize_resume now e (frame_point fr) s) = Returned True
               \<or> snd (summarize_resume now e (frame_point fr) s) = Returned False
                  \<and> frame_stage fr = ThirdAttempt)
          \<longrightarrow> count_list (trace (trySummarize_resume now e s)) IdleTimer_clear =
                 count_list (trace s) IdleTimer_clear + 1
              \<and> \<not> tryWhileSummarizing (trySummarize_resume now e s))"
proof (intro conjI impI)
  show "trySummarize r t s = s\<lparr>tryWhileSummarizing := True, trace := trace s @ [TrySummarize r]\<rparr>"
    using assms(1) by (simp add: trySummarize_def emit_def Let_def)
next
  assume "rs \<noteq> []"
  with assms(1) show "triggers rs s =
      s\<lparr>tryWhileSummarizing := True, trace := trace s @ map (\<lambda>(r, t). TrySummarize r) rs\<rparr>"
    by (rule triggers_in_flight)
next
  assume h: "tryWhileSummarizing s \<and> \<not> stopping s \<and> \<not> disposed s
          \<and> (snd (summarize_resume now e (frame_point fr) s) = Returned True
               \<or> snd (summarize_resume now e (frame_point fr) s) = Returned False
                  \<and> frame_stage fr = ThirdAttempt)"
  obtain s1 st where r: "summarize_resume now e (frame_point fr) s = (s1, st)"
    by (cases "summarize_resume now e (frame_point fr) s")
  have s1: "tryWhileSummarizing s1" "\<not> stopping s1" "\<not> disposed s1"
      "count_list (trace s1) IdleTimer_clear = count_list (trace s) IdleTimer_clear"
    using summarize_resume_keeps [of now e "frame_point fr" s]
      summarize_resume_idle_clears [of now e "frame_point fr" s] h r by simp_all
  obtain d where d: "summarizing s1 = Some d"
    using summarize_resume_keeps(1) [of now e "frame_point fr" s] assms(1) r by auto
  have "count_list (trace (trySummarize_resume now e s)) IdleTimer_clear =
          count_list (trace s) IdleTimer_clear + 1
        \<and> \<not> tryWhileSummarizing (trySummarize_resume now e s)"
  proof (cases "st = Returned True")
    case True
    then have "trySummarize_resume now e s = trySummarize_finally now s1"
      using assms(2) r by (simp add: trySummarize_resume_def)
    then show ?thesis using s1 d
      by (simp add: trySummarize_finally_def run_clears_once run_flag emit_def Let_def)
  next
    case False
    then have "st = Returned False" "frame_stage fr = ThirdAttempt" using h r by auto
    then have "trySummarize_resume now e s = trySummarize_finally now
        (emit (Stop FailToSummarize) (emit (SendErrorEvent ''FailToSummarize'') s1))"
      using assms(2) r by (simp add: trySummarize_resume_def)
    then show ?thesis using s1 d
      by (simp add: trySummarize_finally_def run_clears_once run_flag emit_def Let_def)
  qed
  then show "count_list (trace (trySummarize_resume now e s)) IdleTimer_clear =
          count_list (trace s) IdleTimer_clear + 1"
    and "\<not> tryWhileSummarizing (trySummarize_resume now e s)" by simp_all
qed

theorem coalesced_follow_up_witness:
  "summarizing (trySummarize MaxOps 35 example_in_flight) \<noteq> None
   \<and> task (trySummarize MaxOps 35 example_in_flight) = Some (example_frame (AwaitAckNack 1))
   \<and> tryWhileSummarizing (trySummarize MaxOps 35 example_in_flight)
   \<and> \<not> stopping (trySummarize MaxOps 35 example_in_flight)
   \<and> \<not> disposed (trySummarize MaxOps 35 example_in_flight)
   \<and> snd (summarize_resume 40 (AckNackRace (Value (example_message 12 MessageType_SummaryAck)))
            (AwaitAckNack 1) (trySummarize MaxOps 35 example_in_flight)) = Returned True
   \<and> tryWhileSummarizing (triggers [(Idle, 36), (MaxOps, 37)] (trySummarize MaxOps 35 example_in_flight))
   \<and> count_list (trace (trySummarize_resume 40
              (AckNackRace (Value (example_message 12 MessageType_SummaryAck)))
              (trySummarize MaxOps 35 example_in_flight))) IdleTimer_clear =
        count_list (trace (trySummarize MaxOps 35 example_in_flight)) IdleTimer_clear + 1
   \<and> \<not> tryWhileSummarizing (trySummarize_resume 40
              (AckNackRace (Value (example_message 12 MessageType_SummaryAck)))
              (trySummarize MaxOps 35 example_in_flight))"
proof -
  let ?s = "trySummarize MaxOps 35 example_in_flight"
  let ?e = "AckNackRace (Value (example_message 12 MessageType_SummaryAck))"
  have s: "?s = example_in_flight
             \<lparr>tryWhileSummarizing := True, trace := trace example_in_flight @ [TrySummarize MaxOps]\<rparr>"
    by (simp add: trySummarize_def emit_def example_in_flight_eval Let_def)
  have h1: "summarizing ?s \<noteq> None" and h2: "task ?s = Some (example_frame (AwaitAckNack 1))"
    and h3: "tryWhileSummarizing ?s" "\<not> stopping ?s" "\<not> disposed ?s"
    by (simp_all add: s example_in_flight_eval)
  have h4: "snd (summarize_resume 40 ?e (AwaitAckNack 1) ?s) = Returned True"
    by (simp add: example_message_def)
  have fp: "frame_point (example_frame (AwaitAckNack 1)) = AwaitAckNack 1"
    by (simp add: example_frame_def)
  show ?thesis
    using coalesced_follow_up [OF h1 h2, of LastSummary 38 "[(Idle, 36), (MaxOps, 37)]" 40 ?e]
      h1 h2 h3 h4 fp
    by simp
qed

text \<open>
  C3, as amended. The invariant
  \<^verbatim>\<open>lastAcked.refSequenceNumber <= lastAttempted.refSequenceNumber <= lastOpSeqNumber\<close> is
  preserved by \<^verbatim>\<open>ackLastSent\<close>, by \<^verbatim>\<open>recordAttempt\<close> called without a reference
  sequence number and by \<^verbatim>\<open>handleOp\<close> called with an error. \<^verbatim>\<open>recordAttempt(r)\<close>
  preserves it exactly when \<^verbatim>\<open>lastAcked.refSequenceNumber <= r <= lastOpSeqNumber\<close>,
  \<^verbatim>\<open>initialize(a)\<close> exactly when \<^verbatim>\<open>a.refSequenceNumber <= lastOpSeqNumber\<close>, and
  \<^verbatim>\<open>handleOp(undefined, op)\<close> exactly when
  \<^verbatim>\<open>lastAttempted.refSequenceNumber <= op.sequenceNumber\<close>. The code takes these numbers
  from the summary generator, the watcher and the stream as they come.
\<close>

theorem heuristics_invariant_preserved:
  assumes "heuristics_invariant s"
  shows "heuristics_invariant (ackLastSent s)
       \<and> heuristics_invariant (recordAttempt None now s)
       \<and> (heuristics_invariant (recordAttempt (Some r) now s)
            \<longleftrightarrow> refSequenceNumber (lastAcked s) \<le> r \<and> r \<le> lastOpSeqNumber s)
       \<and> (heuristics_invariant (initialize a s) \<longleftrightarrow> refSequenceNumber a \<le> lastOpSeqNumber s)
       \<and> heuristics_invariant (handleOp now (Some err) op s)
       \<and> (heuristics_invariant (handleOp now None op s)
            \<longleftrightarrow> refSequenceNumber (lastAttempted s) \<le> sequenceNumber op)"
  using assms
  by (auto simp: heuristics_invariant_def ackLastSent_def recordAttempt_def initialize_def
        handleOp_def trySummarize_keeps run_keeps Let_def)

theorem heuristics_invariant_preserved_witness:
  "heuristics_invariant example_summarizer
   \<and> heuristics_invariant (ackLastSent example_summarizer)
   \<and> heuristics_invariant (recordAttempt None 99 example_summarizer)
   \<and> heuristics_invariant (recordAttempt (Some 7) 99 example_summarizer)
   \<and> heuristics_invariant (handleOp 99 None (example_message 11 MessageType_Operation) example_summarizer)"
proof -
  have h: "heuristics_invariant example_summarizer"
    by (simp add: heuristics_invariant_def example_summarizer_def RunningSummarizer_def)
  show ?thesis
    using h heuristics_invariant_preserved [OF h, of 99 7 _ _ "example_message 11 MessageType_Operation"]
    by (simp add: example_summarizer_def RunningSummarizer_def example_message_def)
qed

text \<open>
  The invariant as the specification states it fails: with \<^verbatim>\<open>lastOpSeqNumber = 10\<close>, a
  summary generated at reference sequence number 12 (the generator has seen two ops that
  \<^verbatim>\<open>handleOp\<close> has not yet been told of) is recorded as it is.
\<close>

theorem heuristics_invariant_counterexample:
  "heuristics_invariant example_summarizer
   \<and> \<not> heuristics_invariant (recordAttempt (Some 12) 99 example_summarizer)"
  by (simp add: heuristics_invariant_def example_summarizer_def RunningSummarizer_def
        recordAttempt_def)

text \<open>
  C4. The heuristics' \<^verbatim>\<open>run\<close>. The first thing it does is clear the idle timer. Then, if
  \<^verbatim>\<open>now - lastAcked.summaryTime > maxTime\<close>, it calls the trigger with
  \<^verbatim>\<open>maxTime\<close> and does nothing else of its own (the trigger begins an attempt when none is
  in flight); otherwise, if \<^verbatim>\<open>lastOpSeqNumber - lastAcked.refSequenceNumber > maxOps\<close>, it
  calls the trigger with \<^verbatim>\<open>maxOps\<close>; otherwise it restarts the idle timer for
  \<^verbatim>\<open>idleTime\<close>. The time check comes first: when both thresholds are exceeded the
  reason is \<^verbatim>\<open>maxTime\<close>. The idle timer is armed afterwards exactly when neither threshold
  was exceeded.
\<close>

theorem run_decision:
  "trace (run now s) =
     trace s @ IdleTimer_clear #
       (if now - summaryTime (lastAcked s) > maxTime (configuration s)
        then TrySummarize MaxTime #
               (if summarizing s = None
                then [Summarize_start MaxTime \<lparr>refreshLatestAck = False, fullTree = False\<rparr>,
                      GenerateSummary \<lparr>refreshLatestAck = False, fullTree = False\<rparr>]
                else [])
        else if lastOpSeqNumber s - refSequenceNumber (lastAcked s) > maxOps (configuration s)
        then TrySummarize MaxOps #
               (if summarizing s = None
                then [Summarize_start MaxOps \<lparr>refreshLatestAck = False, fullTree = False\<rparr>,
                      GenerateSummary \<lparr>refreshLatestAck = False, fullTree = False\<rparr>]
                else [])
        else [IdleTimer_restart (idleTime (configuration s))])
   \<and> idleTimer (run now s) =
       (\<not> now - summaryTime (lastAcked s) > maxTime (configuration s)
        \<and> \<not> lastOpSeqNumber s - refSequenceNumber (lastAcked s) > maxOps (configuration s))
   \<and> run now s =
       (if now - summaryTime (lastAcked s) > maxTime (configuration s)
        then trySummarize MaxTime now ((emit IdleTimer_clear s)\<lparr>idleTimer := False\<rparr>)
        else if lastOpSeqNumber s - refSequenceNumber (lastAcked s) > maxOps (configuration s)
        then trySummarize MaxOps now ((emit IdleTimer_clear s)\<lparr>idleTimer := False\<rparr>)
        else (emit (IdleTimer_restart (idleTime (configuration s))) (emit IdleTimer_clear s))
               \<lparr>idleTimer := True\<rparr>)"
  by (simp add: run_def trySummarize_def summarize_begin_def emit_def Let_def)

text \<open>
  C5. The outcomes of one attempt. \<^verbatim>\<open>summarize\<close> returns false, after calling the
  raise-warning callback with the canonical message and cancelling the performance event,
  with \<^verbatim>\<open>generateSummaryFailure\<close> when \<^verbatim>\<open>generateSummary\<close> rejects or resolves with
  \<^verbatim>\<open>submitted\<close> false, with \<^verbatim>\<open>summaryOpWaitTimeout\<close> when the broadcast race
  resolves with the timer's marker, with \<^verbatim>\<open>summaryAckWaitTimeout\<close> when the ack/nack race
  resolves with the timer's marker, and with \<^verbatim>\<open>summaryNack\<close> when a nack arrives. On an
  ack it calls \<^verbatim>\<open>ackLastSent\<close> and returns true, raising nothing. In general: whenever it
  returns false it has raised exactly one warning in that turn, a canonical one; while it only
  moves on to its next \<^verbatim>\<open>await\<close> it raises none; and it returns true only on an ack.
  (The handler of the pending-ack timer raises a warning of its own, worded differently; it
  is not part of \<^verbatim>\<open>summarize\<close>.)
\<close>

theorem summarize_outcomes:
  "snd (summarize_resume now GenerateSummaryRejected AwaitGenerateSummary s) = Returned False
   \<and> trace (fst (summarize_resume now GenerateSummaryRejected AwaitGenerateSummary s)) =
       trace s @ [RaiseSummarizingError ''Error while generating or submitting summary'',
                  Summarize_cancel GenerateSummaryFailure]
   \<and> (\<not> submitted d \<longrightarrow>
        snd (summarize_resume now (GenerateSummaryResolved d) AwaitGenerateSummary s) = Returned False
        \<and> trace (fst (summarize_resume now (GenerateSummaryResolved d) AwaitGenerateSummary s)) =
            trace s @ [SendTelemetryEvent ''GenerateSummary'',
                       RaiseSummarizingError ''Error while generating or submitting summary'',
                       Summarize_cancel GenerateSummaryFailure])
   \<and> snd (summarize_resume now (BroadcastRace PromiseTimerResult) (AwaitBroadcast csn) s) =
       Returned False
   \<and> trace (fst (summarize_resume now (BroadcastRace PromiseTimerResult) (AwaitBroadcast csn) s)) =
       trace s @ [RaiseSummarizingError ''Timeout while waiting for summarize op broadcast'',
                  Summarize_cancel SummaryOpWaitTimeout]
   \<and> snd (summarize_resume now (AckNackRace PromiseTimerResult) (AwaitAckNack csn) s) =
       Returned False
   \<and> trace (fst (summarize_resume now (AckNackRace PromiseTimerResult) (AwaitAckNack csn) s)) =
       trace s @ [RaiseSummarizingError ''Timeout while waiting for summaryAck/summaryNack op'',
                  Summarize_cancel SummaryAckWaitTimeout]
   \<and> (msg_type nack = MessageType_SummaryNack \<longrightarrow>
        snd (summarize_resume now (AckNackRace (Value nack)) (AwaitAckNack csn) s) = Returned False
        \<and> trace (fst (summarize_resume now (AckNackRace (Value nack)) (AwaitAckNack csn) s)) =
            trace s @ [RaiseSummarizingError ''Server rejected summary via summaryNack op'',
                       Summarize_cancel SummaryNack])
   \<and> (msg_type ack = MessageType_SummaryAck \<longrightarrow>
        summarize_resume now (AckNackRace (Value ack)) (AwaitAckNack csn) s =
          (emit Summarize_end (ackLastSent (s\<lparr>pendingAckTimer := False\<rparr>)), Returned True)
        \<and> lastAcked (fst (summarize_resume now (AckNackRace (Value ack)) (AwaitAckNack csn) s)) =
            lastAttempted s
        \<and> warnings (trace (fst (summarize_resume now (AckNackRace (Value ack)) (AwaitAckNack csn) s))) =
            warnings (trace s))
   \<and> (snd (summarize_resume now e1 p1 s) = Returned False \<longrightarrow>
        (\<exists>k. warnings (trace (fst (summarize_resume now e1 p1 s))) =
              warnings (trace s) @ [summarizeErrors k]))
   \<and> (snd (summarize_resume now e2 p2 s) = Suspended q \<longrightarrow>
        warnings (trace (fst (summarize_resume now e2 p2 s))) = warnings (trace s))
   \<and> (snd (summarize_resume now e3 p3 s) = Returned True \<longrightarrow>
        (\<exists>m n. e3 = AckNackRace (Value m) \<and> p3 = AwaitAckNack n
               \<and> msg_type m = MessageType_SummaryAck))"
proof -
  have general_false: "snd (summarize_resume now e1 p1 s) = Returned False \<longrightarrow>
        (\<exists>k. warnings (trace (fst (summarize_resume now e1 p1 s))) =
              warnings (trace s) @ [summarizeErrors k])"
  proof (cases e1)
    case GenerateSummaryRejected
    then show ?thesis
      by (cases p1) (auto simp: fail_def emit_def recordAttempt_def warnings_def Let_def
                     intro: exI[of _ GenerateSummaryFailure])
  next
    case (GenerateSummaryResolved d')
    then show ?thesis
      by (cases p1) (auto simp: fail_def emit_def recordAttempt_def warnings_def Let_def
                     intro: exI[of _ GenerateSummaryFailure])
  next
    case (BroadcastRace x)
    then show ?thesis
      by (cases p1; cases x) (auto simp: fail_def emit_def warnings_def Let_def
                     intro: exI[of _ SummaryOpWaitTimeout])
  next
    case (AckNackRace x)
    then show ?thesis
      by (cases p1; cases x) (auto simp: fail_def emit_def warnings_def ackLastSent_def Let_def
                     intro: exI[of _ SummaryAckWaitTimeout] exI[of _ SummaryNack])
  qed
  have general_suspended: "snd (summarize_resume now e2 p2 s) = Suspended q \<longrightarrow>
        warnings (trace (fst (summarize_resume now e2 p2 s))) = warnings (trace s)"
    by (cases e2; cases p2)
       (auto simp: fail_def emit_def recordAttempt_def warnings_def Let_def split: option.splits)
  have general_true: "snd (summarize_resume now e3 p3 s) = Returned True \<longrightarrow>
        (\<exists>m n. e3 = AckNackRace (Value m) \<and> p3 = AwaitAckNack n
               \<and> msg_type m = MessageType_SummaryAck)"
    by (cases e3; cases p3)
       (auto simp: Let_def split: option.splits if_splits elim: checkNotTimeout.elims)
  have specific: "snd (summarize_resume now GenerateSummaryRejected AwaitGenerateSummary s) = Returned False
   \<and> trace (fst (summarize_resume now GenerateSummaryRejected AwaitGenerateSummary s)) =
       trace s @ [RaiseSummarizingError ''Error while generating or submitting summary'',
                  Summarize_cancel GenerateSummaryFailure]
   \<and> (\<not> submitted d \<longrightarrow>
        snd (summarize_resume now (GenerateSummaryResolved d) AwaitGenerateSummary s) = Returned False
        \<and> trace (fst (summarize_resume now (GenerateSummaryResolved d) AwaitGenerateSummary s)) =
            trace s @ [SendTelemetryEvent ''GenerateSummary'',
                       RaiseSummarizingError ''Error while generating or submitting summary'',
                       Summarize_cancel GenerateSummaryFailure])
   \<and> snd (summarize_resume now (BroadcastRace PromiseTimerResult) (AwaitBroadcast csn) s) =
       Returned False
   \<and> trace (fst (summarize_resume now (BroadcastRace PromiseTimerResult) (AwaitBroadcast csn) s)) =
       trace s @ [RaiseSummarizingError ''Timeout while waiting for summarize op broadcast'',
                  Summarize_cancel SummaryOpWaitTimeout]
   \<and> snd (summarize_resume now (AckNackRace PromiseTimerResult) (AwaitAckNack csn) s) =
       Returned False
   \<and> trace (fst (summarize_resume now (AckNackRace PromiseTimerResult) (AwaitAckNack csn) s)) =
       trace s @ [RaiseSummarizingError ''Timeout while waiting for summaryAck/summaryNack op'',
                  Summarize_cancel SummaryAckWaitTimeout]
   \<and> (msg_type nack = MessageType_SummaryNack \<longrightarrow>
        snd (summarize_resume now (AckNackRace (Value nack)) (AwaitAckNack csn) s) = Returned False
        \<and> trace (fst (summarize_resume now (AckNackRace (Value nack)) (AwaitAckNack csn) s)) =
            trace s @ [RaiseSummarizingError ''Server rejected summary via summaryNack op'',
                       Summarize_cancel SummaryNack])
   \<and> (msg_type ack = MessageType_SummaryAck \<longrightarrow>
        summarize_resume now (AckNackRace (Value ack)) (AwaitAckNack csn) s =
          (emit Summarize_end (ackLastSent (s\<lparr>pendingAckTimer := False\<rparr>)), Returned True)
        \<and> lastAcked (fst (summarize_resume now (AckNackRace (Value ack)) (AwaitAckNack csn) s)) =
            lastAttempted s
        \<and> warnings (trace (fst (summarize_resume now (AckNackRace (Value ack)) (AwaitAckNack csn) s))) =
            warnings (trace s))"
    by (simp add: fail_def emit_def recordAttempt_def ackLastSent_def warnings_def Let_def)
  from specific general_false general_suspended general_true show ?thesis by blast
qed

theorem summarize_outcomes_witness:
  "\<not> submitted (example_data False)
   \<and> msg_type (example_message 12 MessageType_SummaryNack) = MessageType_SummaryNack
   \<and> msg_type (example_message 12 MessageType_SummaryAck) = MessageType_SummaryAck
   \<and> snd (summarize_resume 20 GenerateSummaryRejected AwaitGenerateSummary example_in_flight) =
       Returned False
   \<and> snd (summarize_resume 20 (GenerateSummaryResolved (example_data True)) AwaitGenerateSummary
            example_in_flight) = Suspended (AwaitBroadcast 1)
   \<and> snd (summarize_resume 20 (AckNackRace (Value (example_message 12 MessageType_SummaryAck)))
            (AwaitAckNack 1) example_in_flight) = Returned True
   \<and> snd (summarize_resume 20 (GenerateSummaryResolved (example_data False)) AwaitGenerateSummary
            example_in_flight) = Returned False
   \<and> snd (summarize_resume 20 (AckNackRace (Value (example_message 12 MessageType_SummaryNack)))
            (AwaitAckNack 1) example_in_flight) = Returned False
   \<and> trace (fst (summarize_resume 20 (AckNackRace (Value (example_message 12 MessageType_SummaryNack)))
            (AwaitAckNack 1) example_in_flight)) =
       trace example_in_flight @ [RaiseSummarizingError ''Server rejected summary via summaryNack op'',
                                  Summarize_cancel SummaryNack]
   \<and> lastAcked (fst (summarize_resume 20 (AckNackRace (Value (example_message 12 MessageType_SummaryAck)))
            (AwaitAckNack 1) example_in_flight)) = lastAttempted example_in_flight
   \<and> warnings (trace (fst (summarize_resume 20 (GenerateSummaryResolved (example_data True))
            AwaitGenerateSummary example_in_flight))) = warnings (trace example_in_flight)"
proof -
  have h: "\<not> submitted (example_data False)"
    "msg_type (example_message 12 MessageType_SummaryNack) = MessageType_SummaryNack"
    "msg_type (example_message 12 MessageType_SummaryAck) = MessageType_SummaryAck"
    "snd (summarize_resume 20 GenerateSummaryRejected AwaitGenerateSummary example_in_flight) =
       Returned False"
    "snd (summarize_resume 20 (GenerateSummaryResolved (example_data True)) AwaitGenerateSummary
            example_in_flight) = Suspended (AwaitBroadcast 1)"
    "snd (summarize_resume 20 (AckNackRace (Value (example_message 12 MessageType_SummaryAck)))
            (AwaitAckNack 1) example_in_flight) = Returned True"
    by (simp_all add: example_data_def example_message_def)
  show ?thesis
    using h summarize_outcomes [of 20 example_in_flight "example_data False" 1
        "example_message 12 MessageType_SummaryNack" "example_message 12 MessageType_SummaryAck"
        GenerateSummaryRejected AwaitGenerateSummary
        "GenerateSummaryResolved (example_data True)" AwaitGenerateSummary "AwaitBroadcast 1"
        "AckNackRace (Value (example_message 12 MessageType_SummaryAck))" "AwaitAckNack 1"]
    by blast
qed

text \<open>
  C6. \<^verbatim>\<open>recordAttempt\<close> always runs. When the \<^verbatim>\<open>generateSummary\<close> of an attempt
  settles, rejected or resolved, submitted or not, \<^verbatim>\<open>lastAttempted\<close> becomes a fresh
  record: its reference sequence number is the one \<^verbatim>\<open>generateSummary\<close> returned, or the
  current \<^verbatim>\<open>lastOpSeqNumber\<close> when it rejected; its time is the clock reading of that
  moment; it has no summary sequence number yet. This is the state in which
  \<^verbatim>\<open>summarize\<close> returns false or goes on to wait for the broadcast, and the state the
  retry escalation goes on with in the same turn (in the rejecting case the
  \<^verbatim>\<open>catch\<close> block has raised the warning just before). With a clock that does not go
  backwards the recorded time is no earlier than the start of the attempt.
\<close>

theorem recordAttempt_always:
  assumes "task s = Some fr" and "frame_point fr = AwaitGenerateSummary"
  shows "lastAttempted (trySummarize_resume now (GenerateSummaryRejected) s) =
           \<lparr>refSequenceNumber = lastOpSeqNumber s, summaryTime = now, summarySequenceNumber = None\<rparr>
       \<and> lastAttempted (trySummarize_resume now (GenerateSummaryResolved d) s) =
           \<lparr>refSequenceNumber = referenceSequenceNumber d, summaryTime = now,
            summarySequenceNumber = None\<rparr>
       \<and> lastAttempted (fst (summarize_resume now GenerateSummaryRejected AwaitGenerateSummary s)) =
           \<lparr>refSequenceNumber = lastOpSeqNumber s, summaryTime = now, summarySequenceNumber = None\<rparr>
       \<and> lastAttempted (fst (summarize_resume now (GenerateSummaryResolved d) AwaitGenerateSummary s)) =
           \<lparr>refSequenceNumber = referenceSequenceNumber d, summaryTime = now,
            summarySequenceNumber = None\<rparr>
       \<and> (started fr \<le> now \<longrightarrow>
            started fr \<le> summaryTime (lastAttempted (trySummarize_resume now GenerateSummaryRejected s))
            \<and> started fr \<le> summaryTime (lastAttempted (trySummarize_resume now (GenerateSummaryResolved d) s)))"
  using assms
  by (cases "frame_stage fr")
     (simp_all add: trySummarize_resume_def summarize_begin_keeps trySummarize_finally_keeps
        fail_def emit_def recordAttempt_def Let_def)

theorem recordAttempt_always_witness:
  "task (trySummarize Idle 10 example_summarizer) = Some (example_frame AwaitGenerateSummary)
   \<and> frame_point (example_frame AwaitGenerateSummary) = AwaitGenerateSummary
   \<and> started (example_frame AwaitGenerateSummary) \<le> 20
   \<and> lastAttempted (trySummarize_resume 20 GenerateSummaryRejected
        (trySummarize Idle 10 example_summarizer)) =
       \<lparr>refSequenceNumber = 10, summaryTime = 20, summarySequenceNumber = None\<rparr>
   \<and> lastAttempted (trySummarize_resume 20 (GenerateSummaryResolved (example_data True))
        (trySummarize Idle 10 example_summarizer)) =
       \<lparr>refSequenceNumber = 10, summaryTime = 20, summarySequenceNumber = None\<rparr>"
proof -
  have h1: "task (trySummarize Idle 10 example_summarizer) = Some (example_frame AwaitGenerateSummary)"
    by (simp add: trySummarize_def summarize_begin_def emit_def example_summarizer_def
          RunningSummarizer_def example_frame_def Let_def)
  have h2: "frame_point (example_frame AwaitGenerateSummary) = AwaitGenerateSummary"
    and h3: "started (example_frame AwaitGenerateSummary) \<le> 20"
    by (simp_all add: example_frame_def)
  have l: "lastOpSeqNumber (trySummarize Idle 10 example_summarizer) = 10"
    by (simp add: trySummarize_keeps example_summarizer_def RunningSummarizer_def)
  show ?thesis
    using recordAttempt_always [OF h1 h2, of 20 "example_data True"] h1 h2 h3 l
    by (simp add: example_data_def)
qed



text \<open>
  C9, as amended. In \<^verbatim>\<open>processDocumentWork\<close> the case \<^verbatim>\<open>"translation"\<close> has no
  \<^verbatim>\<open>break\<close>: after constructing the translation work and passing it to
  \<^verbatim>\<open>startTask\<close>, control runs on into the case \<^verbatim>\<open>"ping"\<close>, constructs a ping work and
  passes it to \<^verbatim>\<open>startTask\<close> under the work type \<^verbatim>\<open>"translation"\<close>. That second call
  starts nothing, because the document then has a work item under that type. So for
  \<^verbatim>\<open>"translation"\<close>, as for every other recognized work type, the one work item of that
  type is started when the document has none under the type, and nothing is started when it
  has; the ping work of the translation case is constructed and never started.
\<close>

theorem processDocumentWork_starts:
  "(\<exists>s'. processDocumentWork docId ''translation'' (Fulfilled (Some services)) s = Inr s'
      \<and> work_trace s' =
          work_trace s @
            [New (TranslationWork docId services),
             StartTask docId ''translation'' (TranslationWork docId services)] @
            (if registered s docId ''translation'' then []
             else [ConsoleLog (''Starting work translation for document '' @ docId),
                   Start (TranslationWork docId services)]) @
            [New (PingWork (serverUrl s)), StartTask docId ''translation'' (PingWork (serverUrl s))])
   \<and> (workType = ''snapshot'' \<or> workType = ''intel'' \<or> workType = ''spell'' \<or> workType = ''ping'' \<longrightarrow>
      (\<exists>s' w. processDocumentWork docId workType (Fulfilled (Some services)) s = Inr s'
         \<and> w = (if workType = ''snapshot'' then SnapshotWork docId services
                else if workType = ''intel'' then IntelWork docId services
                else if workType = ''spell'' then SpellcheckerWork docId services
                else PingWork (serverUrl s))
         \<and> work_trace s' =
             work_trace s @ [New w, StartTask docId workType w] @
               (if registered s docId workType then []
                else [ConsoleLog (''Starting work '' @ workType @ '' for document '' @ docId),
                      Start w])))"
  by (auto simp: processDocumentWork_def ping_case_def startTask_trace work_emit_simps Let_def)

theorem processDocumentWork_starts_witness:
  "map_sum id work_trace
     (processDocumentWork ''doc'' ''snapshot'' (Fulfilled (Some ''svc'')) example_service) =
   Inr [New (SnapshotWork ''doc'' ''svc''),
        StartTask ''doc'' ''snapshot'' (SnapshotWork ''doc'' ''svc''),
        ConsoleLog ''Starting work snapshot for document doc'',
        Start (SnapshotWork ''doc'' ''svc'')]"
proof -
  have r: "\<not> registered example_service ''doc'' ''snapshot''"
    by (simp add: registered_def example_service_def)
  show ?thesis
    using processDocumentWork_starts [of "''doc''" "''svc''" example_service "''snapshot''"] r
    by (auto simp: example_service_def)
qed

text \<open>
  The claim as the specification states it fails: on a service without documents, work of
  type \<^verbatim>\<open>"translation"\<close> for a document starts the translation work and no ping work.
\<close>

theorem processDocumentWork_translation_counterexample:
  "map_sum id work_trace
     (processDocumentWork ''doc'' ''translation'' (Fulfilled (Some ''svc'')) example_service) =
   Inr [New (TranslationWork ''doc'' ''svc''),
        StartTask ''doc'' ''translation'' (TranslationWork ''doc'' ''svc''),
        ConsoleLog ''Starting work translation for document doc'',
        Start (TranslationWork ''doc'' ''svc''),
        New (PingWork ''http://alfred''),
        StartTask ''doc'' ''translation'' (PingWork ''http://alfred'')]
   \<and> Start (PingWork ''http://alfred'') \<notin> set
       [New (TranslationWork ''doc'' ''svc''),
        StartTask ''doc'' ''translation'' (TranslationWork ''doc'' ''svc''),
        ConsoleLog ''Starting work translation for document doc'',
        Start (TranslationWork ''doc'' ''svc''),
        New (PingWork ''http://alfred''),
        StartTask ''doc'' ''translation'' (PingWork ''http://alfred'')]"
  by (simp add: processDocumentWork_def ping_case_def startTask_def work_emit_def
        example_service_def Let_def)

text \<open>
  C10. The facade's \<^verbatim>\<open>generateSummary\<close> hands the call on to the internals provider once
  and returns what the provider returned, in every case. When the on-behalf-of client id
  differs from the runtime's summarizer client id and the runtime's own client id differs
  from it too, it calls \<^verbatim>\<open>stop("parentNoLongerSummarizer")\<close>, after which the summarizer
  is stopped; otherwise it does nothing more.
\<close>

theorem generateSummary_stops_when_parent_changed:
  "fst (Summarizer_generateSummary internals runtime options s) = internals options
   \<and> snd (Summarizer_generateSummary internals runtime options s) =
       (if onBehalfOfClientId s \<noteq> summarizerClientId runtime
           \<and> clientId runtime \<noteq> summarizerClientId runtime
        then Summarizer_stop (Some ParentNoLongerSummarizer)
               (s\<lparr>summarizer_trace := summarizer_trace s @ [Internals_generateSummary options]\<rparr>)
        else s\<lparr>summarizer_trace := summarizer_trace s @ [Internals_generateSummary options]\<rparr>)
   \<and> stopped (snd (Summarizer_generateSummary internals runtime options s)) =
       (stopped s \<or> onBehalfOfClientId s \<noteq> summarizerClientId runtime
                      \<and> clientId runtime \<noteq> summarizerClientId runtime)
   \<and> summarizer_trace (snd (Summarizer_generateSummary internals runtime options s)) =
       summarizer_trace s @ Internals_generateSummary options #
         (if \<not> stopped s \<and> onBehalfOfClientId s \<noteq> summarizerClientId runtime
               \<and> clientId runtime \<noteq> summarizerClientId runtime
          then [Telemetry_StoppingSummarizer (onBehalfOfClientId s) (Some ParentNoLongerSummarizer),
                StopDeferred_resolve]
          else [])"
  by (simp add: Summarizer_generateSummary_def Summarizer_stop_def Let_def)

end
